theory Spec2Isabelle
  imports Complex_Main "HOL-Library.List_Lexorder" "HOL-Library.Char_ord"
begin

chapter \<open>The model\<close>

section \<open>JavaScript values\<close>

text \<open>
  A JavaScript \<^verbatim>\<open>number\<close> is modelled as a real (an integer-valued one as an
  \<open>int\<close>): arithmetic is exact, and NaN and the two infinities are outside the model,
  except where a parser's NaN result is written \<open>None\<close>.
  \<^verbatim>\<open>Math.round\<close> rounds to the nearest integer, a tie going up.
\<close>

definition Math_round :: "real \<Rightarrow> real" where
  "Math_round x = of_int \<lfloor>x + 1 / 2\<rfloor>"

text \<open>The remainder operator \<^verbatim>\<open>%\<close> truncates the quotient toward zero.\<close>

definition trunc :: "real \<Rightarrow> int" where
  "trunc x = (if 0 \<le> x then \<lfloor>x\<rfloor> else \<lceil>x\<rceil>)"

definition js_rem :: "real \<Rightarrow> real \<Rightarrow> real" where
  "js_rem x y = x - y * of_int (trunc (x / y))"

text \<open>
  Numbers are rendered into text by \<^verbatim>\<open>toString\<close> and by template strings. A text is
  kept as a list of fragments: literal characters, or a number standing for its rendering.
  Integers are rendered in decimal.
\<close>

datatype frag = Txt string | Num real

type_synonym arg = "frag list"

fun join_frags :: "frag list \<Rightarrow> frag list list \<Rightarrow> frag list" where
  "join_frags sep [] = []"
| "join_frags sep [x] = x"
| "join_frags sep (x # y # ys) = x @ sep @ join_frags sep (y # ys)"

fun join_str :: "string \<Rightarrow> string list \<Rightarrow> string" where
  "join_str sep [] = []"
| "join_str sep [x] = x"
| "join_str sep (x # y # ys) = x @ sep @ join_str sep (y # ys)"

definition digit :: "nat \<Rightarrow> char" where
  "digit d = ''0123456789'' ! d"

fun show_nat :: "nat \<Rightarrow> string" where
  "show_nat n = (if n < 10 then [digit n] else show_nat (n div 10) @ [digit (n mod 10)])"

declare show_nat.simps [simp del]

definition show_int :: "int \<Rightarrow> string" where
  "show_int i = (if i < 0 then ''-'' @ show_nat (nat (- i)) else show_nat (nat i))"

text \<open>\<^verbatim>\<open>s.padStart(n, '0')\<close>\<close>

definition padStart :: "nat \<Rightarrow> char \<Rightarrow> string \<Rightarrow> string" where
  "padStart n c s = replicate (n - length s) c @ s"

fun startsWith :: "string \<Rightarrow> string \<Rightarrow> bool" where
  "startsWith s [] = True"
| "startsWith [] (p # ps) = False"
| "startsWith (c # cs) (p # ps) = (c = p \<and> startsWith cs ps)"

definition endsWith :: "string \<Rightarrow> string \<Rightarrow> bool" where
  "endsWith s p = startsWith (rev s) (rev p)"

fun str_includes :: "string \<Rightarrow> string \<Rightarrow> bool" where
  "str_includes [] p = (p = [])"
| "str_includes (c # cs) p = (startsWith (c # cs) p \<or> str_includes cs p)"

text \<open>\<^verbatim>\<open>toLowerCase\<close>, on the ASCII letters.\<close>

definition lower_char :: "char \<Rightarrow> char" where
  "lower_char c =
     (case map_of (zip ''ABCDEFGHIJKLMNOPQRSTUVWXYZ'' ''abcdefghijklmnopqrstuvwxyz'') c of
        Some l \<Rightarrow> l | None \<Rightarrow> c)"

definition toLowerCase :: "string \<Rightarrow> string" where
  "toLowerCase s = map lower_char s"

text \<open>\<^verbatim>\<open>a || b\<close> on strings that may be undefined: the empty string is falsy.\<close>

definition truthy :: "string option \<Rightarrow> bool" where
  "truthy v = (case v of None \<Rightarrow> False | Some s \<Rightarrow> s \<noteq> [])"

definition str_or :: "string option \<Rightarrow> string \<Rightarrow> string" where
  "str_or v d = (case v of None \<Rightarrow> d | Some s \<Rightarrow> if s \<noteq> [] then s else d)"

text \<open>A destructuring or \<^verbatim>\<open>??\<close> default applies when the value is undefined.\<close>

definition dflt :: "'a \<Rightarrow> 'a option \<Rightarrow> 'a" where
  "dflt d v = (case v of None \<Rightarrow> d | Some x \<Rightarrow> x)"

section \<open>types/index.ts\<close>

datatype ErrorCode =
    FILE_NOT_FOUND
  | INVALID_PATH
  | UNSUPPORTED_FORMAT
  | FFMPEG_NOT_FOUND
  | FFMPEG_ERROR
  | TRANSCRIPTION_ERROR
  | TIMEOUT
  | UNKNOWN_ERROR

text \<open>The \<^verbatim>\<open>details\<close> objects that the program attaches to an error.\<close>

datatype details =
    RangeDetails real real real
  | ExtensionDetails string
  | OriginalError string

record VideoError =
  code :: ErrorCode
  message :: "frag list"
  details :: "details option"
  suggestion :: "frag list option"

definition SUPPORTED_VIDEO_FORMATS :: "string list" where
  "SUPPORTED_VIDEO_FORMATS =
     [''.mp4'', ''.webm'', ''.mov'', ''.avi'', ''.mkv'', ''.m4v'',
      ''.flv'', ''.wmv'', ''.gif'', ''.mpeg'', ''.mpg'', ''.3gp'']"

datatype codec_type = video | audio | subtitle | data

text \<open>Of a probe stream, the fields that the program reads.\<close>

record FFprobeStream =
  stream_index :: int
  codec_name :: "string option"
  stream_codec_type :: codec_type
  stream_width :: "int option"
  stream_height :: "int option"
  r_frame_rate :: "string option"

record FFprobeFormat =
  format_filename :: string
  format_name :: string
  format_duration :: string
  format_size :: string
  format_bit_rate :: string
  tags_creation_time :: "string option"

record FFprobeResult =
  streams :: "FFprobeStream list"
  format :: FFprobeFormat

text \<open>
  \<^verbatim>\<open>VideoMetadata\<close>, without the field \<^verbatim>\<open>fps\<close>: it is a floating-point quotient
  that may be NaN or infinite, and nothing else is computed from it.
\<close>

record VideoMetadata =
  filename :: string
  filepath :: string
  duration :: string
  duration_seconds :: real
  resolution :: string
  width :: int
  height :: int
  codec :: string
  audio_codec :: "string option"
  file_size :: string
  file_size_bytes :: int
  has_audio :: bool
  bitrate :: string
  creation_time :: "string option"

record ExtractedFrame =
  index :: nat
  timestamp :: string
  timestamp_seconds :: real
  image :: string
  mime_type :: string

section \<open>The platform\<close>

text \<open>
  The program runs against Node's \<^verbatim>\<open>path\<close> module, the process environment, two
  parsers of the language, the double-precision logarithm and two external executables.
  They are parameters of the model. A failed operation carries the message of the error it
  throws.
\<close>

datatype thrown = Error string | NonError string

text \<open>
  How a child process ends: it closes with an exit code (\<^verbatim>\<open>null\<close> when a signal
  killed it), its standard output and its diagnostic text, or it cannot be started.
\<close>

datatype proc_outcome =
    Closed "int option" string string
  | SpawnError string

datatype event =
    RunFfprobe "arg list"
  | RunFfmpeg "arg list"
  | MakeTempDir string
  | MakeDir string
  | RemoveDir string

text \<open>
  The file system as the program observes it, and the trace of what the program did to
  its surroundings. \<open>readdirSync\<close> and \<open>readFileBase64\<close> (\<^verbatim>\<open>readFileSync\<close> and the
  base64 encoding of what it reads) give the error message when they throw.
\<close>

record world =
  isFile :: "string \<Rightarrow> bool"
  existsSync :: "string \<Rightarrow> bool"
  readdirSync :: "string \<Rightarrow> string + string list"
  readFileBase64 :: "string \<Rightarrow> string + string"
  trace :: "event list"

record host =
  path_isAbsolute :: "string \<Rightarrow> bool"
  path_join :: "string \<Rightarrow> string \<Rightarrow> string"
  path_resolve :: "string \<Rightarrow> string"
  path_extname :: "string \<Rightarrow> string"
  path_basename :: "string \<Rightarrow> string"
  env_HOME :: "string option"
  env_USERPROFILE :: "string option"
  env_VIDEO_BASE_DIR :: "string option"
  parseFloat :: "string \<Rightarrow> real option"
  parseInt :: "string \<Rightarrow> int option"
  Math_floor_log :: "nat \<Rightarrow> nat \<Rightarrow> nat"
  JSON_parse :: "string \<Rightarrow> string + FFprobeResult"
  ffprobe :: "arg list \<Rightarrow> world \<Rightarrow> proc_outcome"
  ffmpeg :: "arg list \<Rightarrow> world \<Rightarrow> proc_outcome \<times> world"
  mkdtempSync :: "string \<Rightarrow> world \<Rightarrow> string + string"
  mkdirSync :: "string \<Rightarrow> world \<Rightarrow> string option"

section \<open>utils/file-handler.ts\<close>

text \<open>
  \<^verbatim>\<open>parseFloat(x.toFixed(dm)) + ' '\<close> for \<open>x \<ge> 0\<close>: \<^verbatim>\<open>toFixed\<close> writes the
  multiple of \<open>10\<^sup>-\<^sup>d\<^sup>m\<close> nearest to \<open>x\<close> (the larger one on a tie) with \<open>dm\<close>
  decimals, \<^verbatim>\<open>parseFloat\<close> reads that number back, and the concatenation renders it
  in decimal without trailing zeros. \<open>fixed_units\<close> is the number in units of
  \<open>10\<^sup>-\<^sup>d\<^sup>m\<close>.
\<close>

definition fixed_units :: "nat \<Rightarrow> real \<Rightarrow> nat" where
  "fixed_units dm x = nat \<lfloor>x * 10 ^ dm + 1 / 2\<rfloor>"

fun strip_zeros :: "string \<Rightarrow> string" where
  "strip_zeros s = rev (dropWhile (\<lambda>c. c = CHR ''0'') (rev s))"

definition show_units :: "nat \<Rightarrow> nat \<Rightarrow> string" where
  "show_units dm n =
     (let whole = show_nat (n div 10 ^ dm);
          decimals = strip_zeros (padStart dm (CHR ''0'') (show_nat (n mod 10 ^ dm)))
      in if decimals = [] then whole else whole @ ''.'' @ decimals)"

definition sizes :: "string list" where
  "sizes = [''Bytes'', ''KB'', ''MB'', ''GB'', ''TB'']"

text \<open>
  \<^verbatim>\<open>formatBytes(bytes, decimals = 2)\<close> on an integer. The index of the unit is
  \<^verbatim>\<open>Math.floor(Math.log(bytes) / Math.log(k))\<close>, which the platform computes in
  double precision: \<open>Math_floor_log h bytes k\<close> is its value on positive integers. The
  logarithm of a negative number is NaN, which is rendered as such and indexes no unit; an
  index past the table gives \<^verbatim>\<open>undefined\<close>.
\<close>

definition formatBytes' :: "host \<Rightarrow> int \<Rightarrow> int \<Rightarrow> string" where
  "formatBytes' h bytes decimals =
     (if bytes = 0 then ''0 Bytes''
      else if bytes < 0 then ''NaN undefined''
      else
        let k = 1024;
            dm = (if decimals < 0 then 0 else nat decimals);
            i = Math_floor_log h (nat bytes) k
        in show_units dm (fixed_units dm (real_of_int bytes / real (k ^ i)))
           @ '' '' @ (if i < length sizes then sizes ! i else ''undefined''))"

definition formatBytes :: "host \<Rightarrow> int \<Rightarrow> string" where
  "formatBytes h bytes = formatBytes' h bytes 2"

definition formatDuration :: "real \<Rightarrow> string" where
  "formatDuration seconds =
     (let hours = \<lfloor>seconds / 3600\<rfloor>;
          minutes = \<lfloor>js_rem seconds 3600 / 60\<rfloor>;
          secs = \<lfloor>js_rem seconds 60\<rfloor>
      in if hours > 0
         then padStart 2 (CHR ''0'') (show_int hours) @ '':''
              @ padStart 2 (CHR ''0'') (show_int minutes) @ '':''
              @ padStart 2 (CHR ''0'') (show_int secs)
         else padStart 2 (CHR ''0'') (show_int minutes) @ '':''
              @ padStart 2 (CHR ''0'') (show_int secs))"

definition getFilename :: "host \<Rightarrow> string \<Rightarrow> string" where
  "getFilename h filePath = path_basename h filePath"

text \<open>\<^verbatim>\<open>createTempDir\<close>: the prefix joined to the system's temporary directory is the platform's.\<close>

definition createTempDir :: "host \<Rightarrow> world \<Rightarrow> thrown + (string \<times> world)" where
  "createTempDir h w =
     (case mkdtempSync h ''mcp-video-'' w of
        Inl m \<Rightarrow> Inl (Error m)
      | Inr tempDir \<Rightarrow>
          Inr (tempDir,
               w\<lparr>existsSync := (existsSync w)(tempDir := True),
                 readdirSync := (readdirSync w)(tempDir := Inr []),
                 trace := trace w @ [MakeTempDir tempDir]\<rparr>))"

text \<open>
  \<^verbatim>\<open>fs.rmSync(dir, {recursive, force})\<close>: the directory and the entries listed in it
  are gone afterwards.
\<close>

definition rmSync :: "host \<Rightarrow> string \<Rightarrow> world \<Rightarrow> world" where
  "rmSync h dir w =
     (let gone = dir # (case readdirSync w dir of
                          Inl m \<Rightarrow> []
                        | Inr names \<Rightarrow> map (path_join h dir) names)
      in w\<lparr>isFile := (\<lambda>p. p \<notin> set gone \<and> isFile w p),
           existsSync := (\<lambda>p. p \<notin> set gone \<and> existsSync w p),
           readdirSync := (\<lambda>p. if p \<in> set gone then Inl ''ENOENT'' else readdirSync w p),
           readFileBase64 := (\<lambda>p. if p \<in> set gone then Inl ''ENOENT'' else readFileBase64 w p),
           trace := trace w @ [RemoveDir dir]\<rparr>)"

definition cleanupTempDir :: "host \<Rightarrow> string \<Rightarrow> world \<Rightarrow> world" where
  "cleanupTempDir h tempDir w = (if existsSync w tempDir then rmSync h tempDir w else w)"

definition readFileAsBase64 :: "world \<Rightarrow> string \<Rightarrow> thrown + string" where
  "readFileAsBase64 w filePath =
     (case readFileBase64 w filePath of Inl m \<Rightarrow> Inl (Error m) | Inr b \<Rightarrow> Inr b)"

definition listFilesWithExtension :: "host \<Rightarrow> world \<Rightarrow> string \<Rightarrow> string \<Rightarrow> thrown + string list" where
  "listFilesWithExtension h w dirPath extension =
     (case readdirSync w dirPath of
        Inl m \<Rightarrow> Inl (Error m)
      | Inr files \<Rightarrow>
          Inr (sort (map (\<lambda>file. path_join h dirPath file)
                      (filter (\<lambda>file. endsWith file extension) files))))"

definition ensureDir :: "host \<Rightarrow> string \<Rightarrow> world \<Rightarrow> thrown + world" where
  "ensureDir h dirPath w =
     (if \<not> existsSync w dirPath
      then (case mkdirSync h dirPath w of
              Some m \<Rightarrow> Inl (Error m)
            | None \<Rightarrow>
                Inr (w\<lparr>existsSync := (existsSync w)(dirPath := True),
                       readdirSync := (readdirSync w)(dirPath := Inr []),
                       trace := trace w @ [MakeDir dirPath]\<rparr>))
      else Inr w)"

section \<open>utils/validators.ts\<close>

definition getVideoBaseDir :: "host \<Rightarrow> string option" where
  "getVideoBaseDir h = env_VIDEO_BASE_DIR h"

text \<open>\<^verbatim>\<open>fileExists\<close> catches whatever the file system throws and answers false.\<close>

definition fileExists :: "world \<Rightarrow> string \<Rightarrow> bool" where
  "fileExists w filePath = isFile w filePath"

text \<open>The helper \<^verbatim>\<open>findWithExtensions\<close> inside \<^verbatim>\<open>resolveVideoPath\<close>.\<close>

definition findWithExtensions :: "host \<Rightarrow> world \<Rightarrow> string \<Rightarrow> string option" where
  "findWithExtensions h w basePath =
     (if fileExists w basePath then Some basePath
      else
        let ext = toLowerCase (path_extname h basePath)
        in if ext = []
           then List.find (fileExists w) (map (\<lambda>format. basePath @ format) SUPPORTED_VIDEO_FORMATS)
           else None)"

definition homeDir :: "host \<Rightarrow> string" where
  "homeDir h = str_or (env_HOME h) (str_or (env_USERPROFILE h) [])"

definition resolveVideoPath :: "host \<Rightarrow> world \<Rightarrow> string \<Rightarrow> string option" where
  "resolveVideoPath h w inputPath =
     (let baseDir = getVideoBaseDir h
      in if path_isAbsolute h inputPath then findWithExtensions h w inputPath
         else if startsWith inputPath ''~''
           then findWithExtensions h w (path_join h (homeDir h) (drop 1 inputPath))
         else if truthy baseDir
           then findWithExtensions h w (path_join h (the baseDir) inputPath)
         else findWithExtensions h w (path_resolve h inputPath))"

definition isSupportedFormat :: "host \<Rightarrow> string \<Rightarrow> bool" where
  "isSupportedFormat h filePath =
     (toLowerCase (path_extname h filePath) \<in> set SUPPORTED_VIDEO_FORMATS)"

definition listAvailableVideos :: "host \<Rightarrow> world \<Rightarrow> string list" where
  "listAvailableVideos h w =
     (let baseDir = getVideoBaseDir h
      in if \<not> truthy baseDir \<or> \<not> existsSync w (the baseDir) then []
         else (case readdirSync w (the baseDir) of
                 Inl m \<Rightarrow> []
               | Inr files \<Rightarrow> filter (isSupportedFormat h) files))"

definition getFileExtension :: "host \<Rightarrow> string \<Rightarrow> string" where
  "getFileExtension h filePath = toLowerCase (path_extname h filePath)"

definition validateVideoPath :: "host \<Rightarrow> world \<Rightarrow> string \<Rightarrow> VideoError option" where
  "validateVideoPath h w filePath =
     (if filePath = [] then
        Some \<lparr>code = INVALID_PATH,
              message = [Txt ''Video path is required''],
              details = None,
              suggestion = Some [Txt ''Provide a valid file path to a video file'']\<rparr>
      else
        let resolvedPath = resolveVideoPath h w filePath
        in if \<not> truthy resolvedPath then
             let baseDir = getVideoBaseDir h;
                 availableVideos = listAvailableVideos h w;
                 suggestion =
                   (if truthy baseDir
                    then ''Video not found in '' @ the baseDir @ ''.''
                         @ (if length availableVideos > 0
                            then '' Available videos: '' @ join_str '', '' availableVideos
                            else '' No videos found in this directory.'')
                    else ''Check that the file path is correct and the file exists.'')
             in Some \<lparr>code = FILE_NOT_FOUND,
                      message = [Txt (''Video not found: '' @ filePath)],
                      details = None,
                      suggestion = Some [Txt suggestion]\<rparr>
           else if \<not> isSupportedFormat h (the resolvedPath) then
             let ext = getFileExtension h (the resolvedPath)
             in Some \<lparr>code = UNSUPPORTED_FORMAT,
                      message = [Txt (''Unsupported video format: '' @ ext)],
                      details = Some (ExtensionDetails ext),
                      suggestion =
                        Some [Txt (''Supported formats: '' @ join_str '', '' SUPPORTED_VIDEO_FORMATS)]\<rparr>
           else None)"

text \<open>
  \<^verbatim>\<open>validateRange\<close>. Its first test, for a value that is not a number, cannot hold
  of a real and is left out.
\<close>

definition validateRange :: "real \<Rightarrow> real \<Rightarrow> real \<Rightarrow> string \<Rightarrow> VideoError option" where
  "validateRange v lo hi fieldName =
     (if v < lo \<or> v > hi then
        Some \<lparr>code = INVALID_PATH,
              message = [Txt (fieldName @ '' must be between ''), Num lo, Txt '' and '', Num hi],
              details = Some (RangeDetails v lo hi),
              suggestion = Some [Txt (''Adjust '' @ fieldName @ '' to be within the valid range'')]\<rparr>
      else None)"

text \<open>The request of the tool, and the options that the validator reads from it.\<close>

record frames_options =
  opt_path :: string
  opt_interval :: "real option"
  opt_max_frames :: "real option"
  opt_quality :: "real option"
  opt_width :: "real option"
  opt_start_time :: "real option"
  opt_end_time :: "real option"
  opt_output_dir :: "string option"

definition validateExtractFramesOptions ::
  "host \<Rightarrow> world \<Rightarrow> frames_options \<Rightarrow> VideoError option" where
  "validateExtractFramesOptions h w options =
     (case validateVideoPath h w (opt_path options) of
        Some pathError \<Rightarrow> Some pathError
      | None \<Rightarrow>
     (case (case opt_interval options of
              Some v \<Rightarrow> validateRange v 0.1 60 ''interval'' | None \<Rightarrow> None) of
        Some intervalError \<Rightarrow> Some intervalError
      | None \<Rightarrow>
     (case (case opt_max_frames options of
              Some v \<Rightarrow> validateRange v 1 500 ''max_frames'' | None \<Rightarrow> None) of
        Some maxFramesError \<Rightarrow> Some maxFramesError
      | None \<Rightarrow>
     (case (case opt_quality options of
              Some v \<Rightarrow> validateRange v 1 100 ''quality'' | None \<Rightarrow> None) of
        Some qualityError \<Rightarrow> Some qualityError
      | None \<Rightarrow>
     (case (case opt_width options of
              Some v \<Rightarrow> validateRange v 100 3840 ''width'' | None \<Rightarrow> None) of
        Some widthError \<Rightarrow> Some widthError
      | None \<Rightarrow>
     (if opt_start_time options \<noteq> None \<and> the (opt_start_time options) < 0 then
        Some \<lparr>code = INVALID_PATH,
              message = [Txt ''start_time cannot be negative''],
              details = None,
              suggestion = Some [Txt ''Provide a non-negative start time in seconds'']\<rparr>
      else if opt_end_time options \<noteq> None \<and> opt_start_time options \<noteq> None
              \<and> the (opt_end_time options) \<le> the (opt_start_time options) then
        Some \<lparr>code = INVALID_PATH,
              message = [Txt ''end_time must be greater than start_time''],
              details = None,
              suggestion = Some [Txt ''Ensure end_time is after start_time'']\<rparr>
      else None))))))"

definition normalizePath :: "host \<Rightarrow> string \<Rightarrow> string" where
  "normalizePath h filePath =
     path_resolve h
       (if startsWith filePath ''~'' then path_join h (homeDir h) (drop 1 filePath)
        else filePath)"

section \<open>processors/ffmpeg-processor.ts\<close>

definition show_exit_code :: "int option \<Rightarrow> string" where
  "show_exit_code c = (case c of None \<Rightarrow> ''null'' | Some n \<Rightarrow> show_int n)"

definition getVideoInfo :: "host \<Rightarrow> world \<Rightarrow> string \<Rightarrow> (thrown + FFprobeResult) \<times> world" where
  "getVideoInfo h w filePath =
     (let normalizedPath = normalizePath h filePath;
          args = [[Txt ''-v''], [Txt ''quiet''],
                  [Txt ''-print_format''], [Txt ''json''],
                  [Txt ''-show_format''],
                  [Txt ''-show_streams''],
                  [Txt normalizedPath]];
          w' = w\<lparr>trace := trace w @ [RunFfprobe args]\<rparr>
      in (case ffprobe h args w of
            SpawnError m \<Rightarrow> (Inl (Error (''Failed to run ffprobe: '' @ m)), w')
          | Closed c stdout stderr \<Rightarrow>
              if c \<noteq> Some 0 then
                (Inl (Error (''ffprobe exited with code '' @ show_exit_code c @ '': '' @ stderr)), w')
              else (case JSON_parse h stdout of
                      Inl e \<Rightarrow> (Inl (Error (''Failed to parse ffprobe output: '' @ e)), w')
                    | Inr result \<Rightarrow> (Inr result, w'))))"

text \<open>How a template string renders an optional integer field.\<close>

definition show_field :: "int option \<Rightarrow> string" where
  "show_field v = (case v of None \<Rightarrow> ''undefined'' | Some n \<Rightarrow> show_int n)"

definition parseVideoMetadata :: "host \<Rightarrow> string \<Rightarrow> FFprobeResult \<Rightarrow> VideoMetadata" where
  "parseVideoMetadata h filePath probeResult =
     (let normalizedPath = normalizePath h filePath;
          videoStream = List.find (\<lambda>s. stream_codec_type s = video) (streams probeResult);
          audioStream = List.find (\<lambda>s. stream_codec_type s = audio) (streams probeResult);
          fmt = format probeResult;
          durationSeconds = dflt 0 (parseFloat h (format_duration fmt));
          fileSizeBytes = dflt 0 (parseInt h (format_size fmt))
      in \<lparr>filename = getFilename h normalizedPath,
          filepath = normalizedPath,
          duration = formatDuration durationSeconds,
          duration_seconds = durationSeconds,
          resolution =
            (case videoStream of
               Some s \<Rightarrow> show_field (stream_width s) @ ''x'' @ show_field (stream_height s)
             | None \<Rightarrow> ''unknown''),
          width = (case videoStream of Some s \<Rightarrow> dflt 0 (stream_width s) | None \<Rightarrow> 0),
          height = (case videoStream of Some s \<Rightarrow> dflt 0 (stream_height s) | None \<Rightarrow> 0),
          codec = str_or (Option.bind videoStream codec_name) ''unknown'',
          audio_codec =
            (if truthy (Option.bind audioStream codec_name)
             then Option.bind audioStream codec_name else None),
          file_size = formatBytes h fileSizeBytes,
          file_size_bytes = fileSizeBytes,
          has_audio = (audioStream \<noteq> None),
          bitrate =
            (if format_bit_rate fmt \<noteq> []
             then (case parseInt h (format_bit_rate fmt) of
                     Some n \<Rightarrow> formatBytes h n
                   | None \<Rightarrow> ''NaN undefined'') @ ''/s''
             else ''unknown''),
          creation_time = tags_creation_time fmt\<rparr>)"

text \<open>The options of the processor's \<^verbatim>\<open>extractFrames\<close>.\<close>

record proc_options =
  po_interval :: "real option"
  po_maxFrames :: "real option"
  po_quality :: "real option"
  po_width :: "real option"
  po_startTime :: "real option"
  po_endTime :: "real option"

text \<open>
  The argument list that \<^verbatim>\<open>extractFrames\<close> builds before it runs the decoder, for the
  normalized input path and the output pattern.
\<close>

definition extractFrames_args :: "string \<Rightarrow> string \<Rightarrow> proc_options \<Rightarrow> arg list" where
  "extractFrames_args normalizedPath outputPattern options =
    (let interval = dflt 2 (po_interval options);
         maxFrames = dflt 30 (po_maxFrames options);
         quality = dflt 75 (po_quality options);
         width = dflt 800 (po_width options);
         startTime = po_startTime options;
         endTime = po_endTime options;
         filters = [[Txt ''fps=1/'', Num interval], [Txt ''scale='', Num width, Txt '':-1'']]
     in
       (case startTime of
          Some s \<Rightarrow> if s > 0 then [[Txt ''-ss''], [Num s]] else []
        | None \<Rightarrow> [])
       @ [[Txt ''-i''], [Txt normalizedPath]]
       @ (case endTime of
            Some e \<Rightarrow>
              (case startTime of
                 Some s \<Rightarrow> [[Txt ''-t''], [Num (e - s)]]
               | None \<Rightarrow> [[Txt ''-t''], [Num e]])
          | None \<Rightarrow> [])
       @ [[Txt ''-vf''], join_frags [Txt '',''] filters]
       @ [[Txt ''-q:v''], [Num (Math_round ((100 - quality) / 3.2 + 2))]]
       @ [[Txt ''-frames:v''], [Num maxFrames]]
       @ [[Txt outputPattern]])"

definition runFfmpeg :: "host \<Rightarrow> arg list \<Rightarrow> world \<Rightarrow> (thrown + unit) \<times> world" where
  "runFfmpeg h args w =
     (let full = [Txt ''-y''] # args;
          (outcome, w1) = ffmpeg h full w;
          w' = w1\<lparr>trace := trace w @ [RunFfmpeg full]\<rparr>
      in (case outcome of
            SpawnError m \<Rightarrow> (Inl (Error (''Failed to run ffmpeg: '' @ m)), w')
          | Closed c stdout stderr \<Rightarrow>
              if c \<noteq> Some 0 then
                (Inl (Error (''ffmpeg exited with code '' @ show_exit_code c @ '': '' @ stderr)), w')
              else (Inr (), w')))"

text \<open>
  The loop that turns the list of frame files into frames, the \<open>i\<close>-th file read at
  index \<open>i\<close>. The processor and \<^verbatim>\<open>readExistingFramesFromDisk\<close> of the tool both
  run it; a file that cannot be read throws out of the loop.
\<close>

fun frames_loop :: "world \<Rightarrow> real \<Rightarrow> real \<Rightarrow> nat \<Rightarrow> string list \<Rightarrow> thrown + ExtractedFrame list" where
  "frames_loop w startTime interval i [] = Inr []"
| "frames_loop w startTime interval i (frameFile # rest) =
     (let timestampSeconds = startTime + real i * interval
      in (case readFileAsBase64 w frameFile of
            Inl e \<Rightarrow> Inl e
          | Inr b \<Rightarrow>
              (case frames_loop w startTime interval (Suc i) rest of
                 Inl e \<Rightarrow> Inl e
               | Inr frames \<Rightarrow>
                   Inr (\<lparr>index = i,
                         timestamp = formatDuration timestampSeconds,
                         timestamp_seconds = timestampSeconds,
                         image = b,
                         mime_type = ''image/jpeg''\<rparr> # frames))))"

text \<open>
  The processor's \<^verbatim>\<open>extractFrames\<close>, imported by the tool as
  \<^verbatim>\<open>ffmpegExtractFrames\<close>. It always extracts into a temporary directory of its own,
  which it removes when anything after the creation throws. It returns the frames and the
  temporary directory.
\<close>

definition ffmpegExtractFrames ::
  "host \<Rightarrow> world \<Rightarrow> string \<Rightarrow> proc_options \<Rightarrow> (thrown + (ExtractedFrame list \<times> string)) \<times> world" where
  "ffmpegExtractFrames h w filePath options =
     (let normalizedPath = normalizePath h filePath;
          interval = dflt 2 (po_interval options);
          startTime = po_startTime options
      in (case createTempDir h w of
            Inl e \<Rightarrow> (Inl e, w)
          | Inr (tempDir, w1) \<Rightarrow>
              let outputPattern = path_join h tempDir ''frame_%04d.jpg'';
                  args = extractFrames_args normalizedPath outputPattern options;
                  (ran, w2) = runFfmpeg h args w1
              in (case ran of
                    Inl e \<Rightarrow> (Inl e, cleanupTempDir h tempDir w2)
                  | Inr u \<Rightarrow>
                      (case listFilesWithExtension h w2 tempDir ''.jpg'' of
                         Inl e \<Rightarrow> (Inl e, cleanupTempDir h tempDir w2)
                       | Inr frameFiles \<Rightarrow>
                           (case frames_loop w2 (dflt 0 startTime) interval 0 frameFiles of
                              Inl e \<Rightarrow> (Inl e, cleanupTempDir h tempDir w2)
                            | Inr frames \<Rightarrow> (Inr (frames, tempDir), w2))))))"

text \<open>
  \<^verbatim>\<open>extractFrameAtTime\<close>; its parameter \<^verbatim>\<open>timestamp\<close> is written \<open>atTime\<close>.
\<close>

record frame_at_options =
  fa_quality :: "real option"
  fa_width :: "real option"

definition extractFrameAtTime_args ::
  "string \<Rightarrow> string \<Rightarrow> real \<Rightarrow> frame_at_options \<Rightarrow> arg list" where
  "extractFrameAtTime_args normalizedPath outputPath atTime options =
    (let quality = dflt 85 (fa_quality options);
         width = dflt 1280 (fa_width options)
     in [[Txt ''-ss''], [Num atTime],
         [Txt ''-i''], [Txt normalizedPath],
         [Txt ''-frames:v''], [Txt ''1''],
         [Txt ''-vf''], [Txt ''scale='', Num width, Txt '':-1''],
         [Txt ''-q:v''], [Num (Math_round ((100 - quality) / 3.2 + 2))],
         [Txt outputPath]])"

definition extractFrameAtTime ::
  "host \<Rightarrow> world \<Rightarrow> string \<Rightarrow> real \<Rightarrow> frame_at_options \<Rightarrow> (thrown + ExtractedFrame) \<times> world" where
  "extractFrameAtTime h w filePath atTime options =
     (let normalizedPath = normalizePath h filePath
      in (case createTempDir h w of
            Inl e \<Rightarrow> (Inl e, w)
          | Inr (tempDir, w1) \<Rightarrow>
              let outputPath = path_join h tempDir ''frame.jpg'';
                  args = extractFrameAtTime_args normalizedPath outputPath atTime options;
                  (ran, w2) = runFfmpeg h args w1
              in (case ran of
                    Inl e \<Rightarrow> (Inl e, cleanupTempDir h tempDir w2)
                  | Inr u \<Rightarrow>
                      if \<not> existsSync w2 outputPath then
                        (Inl (Error ''Failed to extract frame - output file not created''),
                         cleanupTempDir h tempDir w2)
                      else (case readFileAsBase64 w2 outputPath of
                              Inl e \<Rightarrow> (Inl e, cleanupTempDir h tempDir w2)
                            | Inr b \<Rightarrow>
                                (Inr \<lparr>index = 0,
                                      timestamp = formatDuration atTime,
                                      timestamp_seconds = atTime,
                                      image = b,
                                      mime_type = ''image/jpeg''\<rparr>,
                                 cleanupTempDir h tempDir w2)))))"

definition createFfmpegError :: "thrown \<Rightarrow> VideoError" where
  "createFfmpegError error =
     (let msg = (case error of Error m \<Rightarrow> m | NonError s \<Rightarrow> s)
      in if str_includes msg ''not found'' \<or> str_includes msg ''ENOENT'' then
           \<lparr>code = FFMPEG_NOT_FOUND,
            message = [Txt ''ffmpeg is not installed or not in PATH''],
            details = None,
            suggestion =
              Some [Txt ''Install ffmpeg: brew install ffmpeg (macOS) or apt install ffmpeg (Linux)'']\<rparr>
         else
           \<lparr>code = FFMPEG_ERROR,
            message = [Txt (''FFmpeg error: '' @ msg)],
            details = Some (OriginalError msg),
            suggestion = None\<rparr>)"

section \<open>tools/extract-frames.ts\<close>

record extraction_info =
  total_frames_extracted :: nat
  interval_used :: real
  info_quality :: real
  info_width :: real

record ExtractFramesResponse =
  metadata :: VideoMetadata
  frames :: "ExtractedFrame list"
  info :: extraction_info
  frame_paths :: "string list option"
  output_directory :: "string option"

datatype ExtractFramesResult = Success ExtractFramesResponse | Failure VideoError

definition getExistingFrames :: "host \<Rightarrow> world \<Rightarrow> string \<Rightarrow> string list" where
  "getExistingFrames h w dirPath =
     (case listFilesWithExtension h w dirPath ''.jpg'' of
        Inl e \<Rightarrow> []
      | Inr files \<Rightarrow> files)"

definition readExistingFramesFromDisk ::
  "world \<Rightarrow> string list \<Rightarrow> real \<Rightarrow> real option \<Rightarrow> thrown + ExtractedFrame list" where
  "readExistingFramesFromDisk w framePaths interval startTime =
     frames_loop w (dflt 0 startTime) interval 0 framePaths"

text \<open>
  The \<^verbatim>\<open>catch\<close> block of the tool: \<open>tempDir\<close> is the variable of that name, set
  only once the processor has returned.
\<close>

definition catch_block ::
  "host \<Rightarrow> string option \<Rightarrow> bool \<Rightarrow> thrown \<Rightarrow> world \<Rightarrow> ExtractFramesResult \<times> world" where
  "catch_block h tempDir usePersistentOutput error w =
     (Failure (createFfmpegError error),
      (if truthy tempDir \<and> \<not> usePersistentOutput then cleanupTempDir h (the tempDir) w else w))"

text \<open>
  The tail of the \<^verbatim>\<open>try\<close> block, from the call of the processor on. The processor
  under \<^verbatim>\<open>processors/\<close> reads no \<^verbatim>\<open>outputDir\<close> and returns no \<^verbatim>\<open>framePaths\<close>,
  so the response of this branch carries neither frame paths nor an output directory.
\<close>

definition extract_fresh ::
  "host \<Rightarrow> world \<Rightarrow> string \<Rightarrow> frames_options \<Rightarrow> VideoMetadata \<Rightarrow> bool
     \<Rightarrow> ExtractFramesResult \<times> world" where
  "extract_fresh h w resolvedPath options meta usePersistentOutput =
     (let (result, w1) =
            ffmpegExtractFrames h w resolvedPath
              \<lparr>po_interval = opt_interval options,
               po_maxFrames = opt_max_frames options,
               po_quality = opt_quality options,
               po_width = opt_width options,
               po_startTime = opt_start_time options,
               po_endTime = opt_end_time options\<rparr>
      in (case result of
            Inl e \<Rightarrow> catch_block h None usePersistentOutput e w1
          | Inr (frameList, tempDir) \<Rightarrow>
              let framePaths = (None :: string list option);
                  w2 = (if \<not> usePersistentOutput then cleanupTempDir h tempDir w1 else w1);
                  response =
                    \<lparr>metadata = meta,
                     frames = frameList,
                     info = \<lparr>total_frames_extracted = length frameList,
                             interval_used = the (opt_interval options),
                             info_quality = the (opt_quality options),
                             info_width = the (opt_width options)\<rparr>,
                     frame_paths = None,
                     output_directory = None\<rparr>
              in if usePersistentOutput \<and> framePaths \<noteq> None
                 then (Success (response\<lparr>frame_paths := framePaths,
                                          output_directory := opt_output_dir options\<rparr>), w2)
                 else (Success response, w2)))"

definition extractFrames ::
  "host \<Rightarrow> world \<Rightarrow> frames_options \<Rightarrow> ExtractFramesResult \<times> world" where
  "extractFrames h w input =
     (let options =
            \<lparr>opt_path = opt_path input,
             opt_interval = Some (dflt 2 (opt_interval input)),
             opt_max_frames = Some (dflt 30 (opt_max_frames input)),
             opt_quality = Some (dflt 75 (opt_quality input)),
             opt_width = Some (dflt 800 (opt_width input)),
             opt_start_time = opt_start_time input,
             opt_end_time = opt_end_time input,
             opt_output_dir = opt_output_dir input\<rparr>
      in (case validateExtractFramesOptions h w options of
            Some validationError \<Rightarrow> (Failure validationError, w)
          | None \<Rightarrow>
              let resolvedPath = resolveVideoPath h w (opt_path options)
              in if \<not> truthy resolvedPath then
                   (Failure \<lparr>code = FILE_NOT_FOUND,
                             message = [Txt (''Could not resolve video path: '' @ opt_path options)],
                             details = None,
                             suggestion = None\<rparr>, w)
                 else
                   let usePersistentOutput = truthy (opt_output_dir options);
                       (probed, w1) = getVideoInfo h w (the resolvedPath)
                   in (case probed of
                         Inl e \<Rightarrow> catch_block h None usePersistentOutput e w1
                       | Inr probeResult \<Rightarrow>
                           let meta = parseVideoMetadata h (the resolvedPath) probeResult
                           in if opt_start_time options \<noteq> None
                                 \<and> the (opt_start_time options) \<ge> duration_seconds meta then
                                (Failure
                                   \<lparr>code = INVALID_PATH,
                                    message =
                                      [Txt ''start_time ('', Num (the (opt_start_time options)),
                                       Txt ''s) exceeds video duration ('',
                                       Num (duration_seconds meta), Txt ''s)''],
                                    details = None,
                                    suggestion =
                                      Some [Txt ''Use a start_time less than '',
                                            Num (duration_seconds meta), Txt '' seconds'']\<rparr>, w1)
                              else if usePersistentOutput then
                                let existingFramePaths =
                                      getExistingFrames h w1 (the (opt_output_dir options))
                                in if length existingFramePaths > 0 then
                                     (case readExistingFramesFromDisk w1 existingFramePaths
                                             (the (opt_interval options)) (opt_start_time options) of
                                        Inl e \<Rightarrow> catch_block h None usePersistentOutput e w1
                                      | Inr frameList \<Rightarrow>
                                          (Success
                                             \<lparr>metadata = meta,
                                              frames = frameList,
                                              info = \<lparr>total_frames_extracted = length frameList,
                                                      interval_used = the (opt_interval options),
                                                      info_quality = the (opt_quality options),
                                                      info_width = the (opt_width options)\<rparr>,
                                              frame_paths = Some existingFramePaths,
                                              output_directory = opt_output_dir options\<rparr>, w1))
                                   else
                                     (case ensureDir h (the (opt_output_dir options)) w1 of
                                        Inl e \<Rightarrow> catch_block h None usePersistentOutput e w1
                                      | Inr w2 \<Rightarrow>
                                          extract_fresh h w2 (the resolvedPath) options meta
                                            usePersistentOutput)
                              else extract_fresh h w1 (the resolvedPath) options meta
                                     usePersistentOutput)))"

section \<open>Notions of the specification\<close>

text \<open>
  The quality transform as the specification words it: the native value is
  \<open>round((100 - quality) / 3.2 + 2)\<close>.
\<close>

definition spec_native_quality :: "real \<Rightarrow> real" where
  "spec_native_quality q = of_int (round ((100 - q) / 3.2 + 2))"

text \<open>An argument list passes a flag with a value when the two are adjacent in it.\<close>

fun passes :: "arg list \<Rightarrow> string \<Rightarrow> arg \<Rightarrow> bool" where
  "passes (a # b # rest) flag v = ((a = [Txt flag] \<and> b = v) \<or> passes (b # rest) flag v)"
| "passes args flag v = False"

text \<open>What a call added to the trace.\<close>

definition new_events :: "world \<Rightarrow> world \<Rightarrow> event list" where
  "new_events w w' = drop (length (trace w)) (trace w')"

fun is_decoder_run :: "event \<Rightarrow> bool" where
  "is_decoder_run (RunFfmpeg a) = True"
| "is_decoder_run e = False"

fun is_removal :: "event \<Rightarrow> bool" where
  "is_removal (RemoveDir d) = True"
| "is_removal e = False"

text \<open>The event of probing a path, and the world after it.\<close>

definition probe_event :: "host \<Rightarrow> string \<Rightarrow> event" where
  "probe_event h filePath =
     RunFfprobe [[Txt ''-v''], [Txt ''quiet''], [Txt ''-print_format''], [Txt ''json''],
                 [Txt ''-show_format''], [Txt ''-show_streams''],
                 [Txt (normalizePath h filePath)]]"

definition probed_world :: "host \<Rightarrow> world \<Rightarrow> string \<Rightarrow> world" where
  "probed_world h w filePath = w\<lparr>trace := trace w @ [probe_event h filePath]\<rparr>"

text \<open>The options that the tool hands to the processor.\<close>

definition processor_options :: "frames_options \<Rightarrow> proc_options" where
  "processor_options options =
     \<lparr>po_interval = opt_interval options,
      po_maxFrames = opt_max_frames options,
      po_quality = opt_quality options,
      po_width = opt_width options,
      po_startTime = opt_start_time options,
      po_endTime = opt_end_time options\<rparr>"

text \<open>The event of running the decoder on a path, into the temporary directory \<open>t\<close>.\<close>

definition decoder_event :: "host \<Rightarrow> string \<Rightarrow> proc_options \<Rightarrow> string \<Rightarrow> event" where
  "decoder_event h p po t =
     RunFfmpeg ([Txt ''-y''] # extractFrames_args (normalizePath h p)
                  (path_join h t ''frame_%04d.jpg'') po)"

text \<open>Two worlds with the same file system: they differ in the trace at most.\<close>

definition same_files :: "world \<Rightarrow> world \<Rightarrow> bool" where
  "same_files w w' =
     (isFile w' = isFile w \<and> existsSync w' = existsSync w
      \<and> readdirSync w' = readdirSync w \<and> readFileBase64 w' = readFileBase64 w)"

text \<open>
  The image files of a directory, as the pipeline lists them: the entries named
  \<^verbatim>\<open>*.jpg\<close>, joined to the directory and sorted.
\<close>

definition image_files :: "host \<Rightarrow> string \<Rightarrow> string list \<Rightarrow> string list" where
  "image_files h dir names =
     sort (map (path_join h dir) (filter (\<lambda>n. endsWith n ''.jpg'') names))"

text \<open>The request with the defaults of the interface applied.\<close>

definition with_defaults :: "frames_options \<Rightarrow> frames_options" where
  "with_defaults input =
     \<lparr>opt_path = opt_path input,
      opt_interval = Some (dflt 2 (opt_interval input)),
      opt_max_frames = Some (dflt 30 (opt_max_frames input)),
      opt_quality = Some (dflt 75 (opt_quality input)),
      opt_width = Some (dflt 800 (opt_width input)),
      opt_start_time = opt_start_time input,
      opt_end_time = opt_end_time input,
      opt_output_dir = opt_output_dir input\<rparr>"

text \<open>The timestamps of \<open>n\<close> frames sampled at a fixed interval from a start time.\<close>

definition sampled_at :: "real \<Rightarrow> real \<Rightarrow> nat \<Rightarrow> real list" where
  "sampled_at startTime interval n = map (\<lambda>i. startTime + real i * interval) [0..<n]"

text \<open>The timestamps of the frames of a result, when the call succeeded.\<close>

definition timestamps_of :: "ExtractFramesResult \<Rightarrow> real list option" where
  "timestamps_of res =
     (case res of
        Success r \<Rightarrow> Some (map timestamp_seconds (frames r))
      | Failure e \<Rightarrow> None)"

text \<open>
  The exact integer logarithm \<open>\<lfloor>log\<^sub>k n\<rfloor>\<close> of a positive integer: the number of
  times \<open>n\<close> can be divided by \<open>k\<close> before it falls below \<open>k\<close>. The byte formatter is
  1024-based in the sense of the specification where the platform's double-precision
  quotient floors to it.
\<close>

fun integer_log :: "nat \<Rightarrow> nat \<Rightarrow> nat" where
  "integer_log k n = (if k < 2 \<or> n < k then 0 else Suc (integer_log k (n div k)))"

declare integer_log.simps [simp del]

text \<open>
  Fail-fast validation as the specification words it: the checks in their fixed order,
  and the first violation found.
\<close>

definition check_interval :: "frames_options \<Rightarrow> VideoError option" where
  "check_interval options =
     (case opt_interval options of Some v \<Rightarrow> validateRange v 0.1 60 ''interval'' | None \<Rightarrow> None)"

definition check_max_frames :: "frames_options \<Rightarrow> VideoError option" where
  "check_max_frames options =
     (case opt_max_frames options of Some v \<Rightarrow> validateRange v 1 500 ''max_frames'' | None \<Rightarrow> None)"

definition check_quality :: "frames_options \<Rightarrow> VideoError option" where
  "check_quality options =
     (case opt_quality options of Some v \<Rightarrow> validateRange v 1 100 ''quality'' | None \<Rightarrow> None)"

definition check_width :: "frames_options \<Rightarrow> VideoError option" where
  "check_width options =
     (case opt_width options of Some v \<Rightarrow> validateRange v 100 3840 ''width'' | None \<Rightarrow> None)"

definition check_start_time :: "frames_options \<Rightarrow> VideoError option" where
  "check_start_time options =
     (case opt_start_time options of
        Some s \<Rightarrow>
          if s < 0 then
            Some \<lparr>code = INVALID_PATH,
                  message = [Txt ''start_time cannot be negative''],
                  details = None,
                  suggestion = Some [Txt ''Provide a non-negative start time in seconds'']\<rparr>
          else None
      | None \<Rightarrow> None)"

definition check_time_window :: "frames_options \<Rightarrow> VideoError option" where
  "check_time_window options =
     (case (opt_start_time options, opt_end_time options) of
        (Some s, Some e) \<Rightarrow>
          if e \<le> s then
            Some \<lparr>code = INVALID_PATH,
                  message = [Txt ''end_time must be greater than start_time''],
                  details = None,
                  suggestion = Some [Txt ''Ensure end_time is after start_time'']\<rparr>
          else None
      | _ \<Rightarrow> None)"

definition checks_in_order :: "host \<Rightarrow> world \<Rightarrow> (frames_options \<Rightarrow> VideoError option) list" where
  "checks_in_order h w =
     [\<lambda>options. validateVideoPath h w (opt_path options),
      check_interval, check_max_frames, check_quality, check_width,
      check_start_time, check_time_window]"

fun first_violation :: "VideoError option list \<Rightarrow> VideoError option" where
  "first_violation [] = None"
| "first_violation (Some e # rest) = Some e"
| "first_violation (None # rest) = first_violation rest"

text \<open>The values that the specification lists as rejected.\<close>

definition listed_violation :: "frames_options \<Rightarrow> bool" where
  "listed_violation options =
     (opt_interval options = Some 0 \<or> opt_interval options = Some 61
      \<or> opt_quality options = Some 0 \<or> opt_quality options = Some 101
      \<or> opt_width options = Some 50
      \<or> opt_max_frames options = Some 0 \<or> opt_max_frames options = Some 501
      \<or> (case (opt_start_time options, opt_end_time options) of
            (Some s, Some e) \<Rightarrow> e \<le> s | _ \<Rightarrow> False))"

text \<open>A numeric option is in its range when it is absent or within the closed bounds.\<close>

definition in_range :: "real \<Rightarrow> real \<Rightarrow> real option \<Rightarrow> bool" where
  "in_range lo hi v = (case v of None \<Rightarrow> True | Some x \<Rightarrow> lo \<le> x \<and> x \<le> hi)"

text \<open>
  The candidate path of the resolver, by the stages of the specification: an absolute input
  as it is, a home-relative input expanded, any other input joined to the base directory
  when one is configured, and resolved against the working directory otherwise.
\<close>

definition candidate :: "host \<Rightarrow> string \<Rightarrow> string" where
  "candidate h inputPath =
     (if path_isAbsolute h inputPath then inputPath
      else if startsWith inputPath ''~'' then path_join h (homeDir h) (drop 1 inputPath)
      else if truthy (env_VIDEO_BASE_DIR h) then path_join h (the (env_VIDEO_BASE_DIR h)) inputPath
      else path_resolve h inputPath)"

section \<open>A concrete platform\<close>

text \<open>
  A small POSIX-like platform and file system, on which the properties below are
  instantiated: a video \<^verbatim>\<open>/videos/clip.mp4\<close> of 60 seconds beside two other videos,
  a directory \<^verbatim>\<open>/videos/frames\<close> holding three frames, and a directory
  \<^verbatim>\<open>/videos/shots\<close> holding five.
\<close>

text \<open>
  The logarithm of the concrete platform: the exact integer logarithm, except on the three
  sizes just below \<open>1024\<^sup>5 = 2\<^sup>5\<^sup>0\<close>, where the quotient of the two rounded
  double-precision logarithms is already 5.
\<close>

definition demo_floor_log :: "nat \<Rightarrow> nat \<Rightarrow> nat" where
  "demo_floor_log n k =
     (if k = 1024 \<and> 2 ^ 50 - 3 \<le> n \<and> n < 2 ^ 50 then 5 else integer_log k n)"

definition demo_extname :: "string \<Rightarrow> string" where
  "demo_extname p =
     (let base = rev (takeWhile (\<lambda>c. c \<noteq> CHR ''/'') (rev p));
          ext = rev (takeWhile (\<lambda>c. c \<noteq> CHR ''.'') (rev base))
      in if length ext + 1 < length base then CHR ''.'' # ext else [])"

text \<open>Decimal literals: an optional sign, digits, and an optional fraction.\<close>

definition digit_value :: "char \<Rightarrow> nat option" where
  "digit_value c = map_of (zip ''0123456789'' [0, 1, 2, 3, 4, 5, 6, 7, 8, 9]) c"

definition is_digit :: "char \<Rightarrow> bool" where
  "is_digit c = (digit_value c \<noteq> None)"

definition digits_value :: "string \<Rightarrow> nat" where
  "digits_value ds = foldl (\<lambda>n c. 10 * n + the (digit_value c)) 0 ds"

definition demo_parseInt :: "string \<Rightarrow> int option" where
  "demo_parseInt s =
     (let neg = startsWith s ''-'';
          body = (if neg then drop 1 s else s);
          ds = takeWhile is_digit body
      in if ds = [] then None
         else Some (if neg then - int (digits_value ds) else int (digits_value ds)))"

definition demo_parseFloat :: "string \<Rightarrow> real option" where
  "demo_parseFloat s =
     (let neg = startsWith s ''-'';
          body = (if neg then drop 1 s else s);
          ds = takeWhile is_digit body;
          rest = dropWhile is_digit body;
          fs = (if startsWith rest ''.'' then takeWhile is_digit (drop 1 rest) else []);
          v = real (digits_value ds) + real (digits_value fs) / 10 ^ length fs
      in if ds = [] \<and> fs = [] then None else Some (if neg then - v else v))"

definition demo_probe :: FFprobeResult where
  "demo_probe =
     \<lparr>streams =
        [\<lparr>stream_index = 0, codec_name = Some ''h264'', stream_codec_type = video,
          stream_width = Some 1920, stream_height = Some 1080, r_frame_rate = Some ''30/1''\<rparr>,
         \<lparr>stream_index = 1, codec_name = Some ''aac'', stream_codec_type = audio,
          stream_width = None, stream_height = None, r_frame_rate = Some ''0/0''\<rparr>],
      format =
        \<lparr>format_filename = ''/videos/clip.mp4'', format_name = ''mov,mp4,m4a,3gp,3g2,mj2'',
         format_duration = ''60.000000'', format_size = ''1536'', format_bit_rate = ''2048'',
         tags_creation_time = None\<rparr>\<rparr>"

text \<open>
  A probe document whose audio stream has no codec name and whose format has a negative
  duration.
\<close>

definition odd_probe :: FFprobeResult where
  "odd_probe =
     \<lparr>streams =
        [\<lparr>stream_index = 0, codec_name = Some ''h264'', stream_codec_type = video,
          stream_width = Some 1920, stream_height = Some 1080, r_frame_rate = Some ''30/1''\<rparr>,
         \<lparr>stream_index = 1, codec_name = None, stream_codec_type = audio,
          stream_width = None, stream_height = None, r_frame_rate = Some ''0/0''\<rparr>],
      format =
        \<lparr>format_filename = ''/videos/clip.mp4'', format_name = ''mov,mp4,m4a,3gp,3g2,mj2'',
         format_duration = ''-1.5'', format_size = ''1536'', format_bit_rate = ''2048'',
         tags_creation_time = None\<rparr>\<rparr>"

text \<open>
  The decoder of the concrete platform writes three frames into the temporary directory
  and exits with code 0.
\<close>

definition demo_ffmpeg :: "arg list \<Rightarrow> world \<Rightarrow> proc_outcome \<times> world" where
  "demo_ffmpeg args w =
     (Closed (Some 0) [] [],
      w\<lparr>readdirSync := (readdirSync w)
           (''/tmp/mcp-video-a1'' := Inr [''frame_0001.jpg'', ''frame_0002.jpg'', ''frame_0003.jpg'']),
        readFileBase64 := (\<lambda>p. if startsWith p ''/tmp/mcp-video-a1/frame_'' then Inr ''/9j/4AAQ''
                                else readFileBase64 w p)\<rparr>)"

definition demo_host :: host where
  "demo_host =
     \<lparr>path_isAbsolute = (\<lambda>p. startsWith p ''/''),
      path_join = (\<lambda>a b. a @ ''/'' @ b),
      path_resolve = (\<lambda>p. if startsWith p ''/'' then p else ''/work/'' @ p),
      path_extname = demo_extname,
      path_basename = (\<lambda>p. rev (takeWhile (\<lambda>c. c \<noteq> CHR ''/'') (rev p))),
      env_HOME = Some ''/home/user'',
      env_USERPROFILE = None,
      env_VIDEO_BASE_DIR = Some ''/videos'',
      parseFloat = demo_parseFloat,
      parseInt = demo_parseInt,
      Math_floor_log = demo_floor_log,
      JSON_parse = (\<lambda>s. if s = ''{probe}'' then Inr demo_probe else Inl ''SyntaxError''),
      ffprobe = (\<lambda>args w. Closed (Some 0) ''{probe}'' []),
      ffmpeg = demo_ffmpeg,
      mkdtempSync = (\<lambda>prefix w. Inr ''/tmp/mcp-video-a1''),
      mkdirSync = (\<lambda>dir w. None)\<rparr>"

definition demo_world :: world where
  "demo_world =
     \<lparr>isFile = (\<lambda>p. p \<in> set [''/videos/clip.mp4'', ''/videos/clip.mov'', ''/videos/other.mov'',
                               ''/videos/frames/frame_0001.jpg'',
                               ''/videos/frames/frame_0002.jpg'',
                               ''/videos/frames/frame_0003.jpg'',
                               ''/videos/shots/frame_0001.jpg'',
                               ''/videos/shots/frame_0002.jpg'',
                               ''/videos/shots/frame_0003.jpg'',
                               ''/videos/shots/frame_0004.jpg'',
                               ''/videos/shots/frame_0005.jpg'']),
      existsSync = (\<lambda>p. p \<in> set [''/videos'', ''/videos/frames'', ''/videos/shots'',
                                   ''/videos/clip.mp4'',
                                   ''/videos/clip.mov'', ''/videos/other.mov'',
                                   ''/videos/frames/frame_0001.jpg'',
                                   ''/videos/frames/frame_0002.jpg'',
                                   ''/videos/frames/frame_0003.jpg'',
                                   ''/videos/shots/frame_0001.jpg'',
                                   ''/videos/shots/frame_0002.jpg'',
                                   ''/videos/shots/frame_0003.jpg'',
                                   ''/videos/shots/frame_0004.jpg'',
                                   ''/videos/shots/frame_0005.jpg'']),
      readdirSync = (\<lambda>p. if p = ''/videos''
                          then Inr [''clip.mp4'', ''clip.mov'', ''other.mov'', ''frames'', ''shots'']
                          else if p = ''/videos/frames''
                          then Inr [''frame_0002.jpg'', ''frame_0001.jpg'', ''notes.txt'',
                                    ''frame_0003.jpg'']
                          else if p = ''/videos/shots''
                          then Inr [''frame_0001.jpg'', ''frame_0002.jpg'', ''frame_0003.jpg'',
                                    ''frame_0004.jpg'', ''frame_0005.jpg'']
                          else Inl ''ENOENT: no such file or directory''),
      readFileBase64 = (\<lambda>p. if startsWith p ''/videos/frames/frame_''
                                \<or> startsWith p ''/videos/shots/frame_'' then Inr ''/9j/4AAQ''
                             else if p = ''/videos/clip.mp4'' then Inr ''AAAA''
                             else Inl ''ENOENT: no such file or directory''),
      trace = []\<rparr>"

definition demo_request :: frames_options where
  "demo_request =
     \<lparr>opt_path = ''clip'',
      opt_interval = Some 2,
      opt_max_frames = Some 3,
      opt_quality = None,
      opt_width = None,
      opt_start_time = Some 5,
      opt_end_time = None,
      opt_output_dir = None\<rparr>"

chapter \<open>Properties\<close>

section \<open>Auxiliary facts\<close>

lemma dflt_simps [simp]: "dflt d None = d" "dflt d (Some x) = x"
  by (simp_all add: dflt_def)

lemma truthy_simps [simp]: "truthy None = False" "truthy (Some s) = (s \<noteq> [])"
  by (simp_all add: truthy_def)

lemma startsWith_iff: "startsWith s p \<longleftrightarrow> (\<exists>b. s = p @ b)"
  by (induction s p rule: startsWith.induct) auto

lemma str_includes_iff: "str_includes s p \<longleftrightarrow> (\<exists>a b. s = a @ p @ b)"
proof (induction s)
  case Nil
  then show ?case by auto
next
  case (Cons c cs)
  have "(\<exists>a b. c # cs = a @ p @ b) \<longleftrightarrow> (\<exists>b. c # cs = p @ b) \<or> (\<exists>a b. cs = a @ p @ b)"
  proof
    assume "\<exists>a b. c # cs = a @ p @ b"
    then obtain a b where ab: "c # cs = a @ p @ b" by blast
    show "(\<exists>b. c # cs = p @ b) \<or> (\<exists>a b. cs = a @ p @ b)"
    proof (cases a)
      case Nil
      with ab show ?thesis by auto
    next
      case (Cons x a')
      with ab have "cs = a' @ p @ b" by simp
      then show ?thesis by blast
    qed
  next
    assume "(\<exists>b. c # cs = p @ b) \<or> (\<exists>a b. cs = a @ p @ b)"
    then show "\<exists>a b. c # cs = a @ p @ b"
    proof
      assume "\<exists>b. c # cs = p @ b"
      then obtain b where "c # cs = [] @ p @ b" by auto
      then show ?thesis by blast
    next
      assume "\<exists>a b. cs = a @ p @ b"
      then obtain a b where "c # cs = (c # a) @ p @ b" by auto
      then show ?thesis by blast
    qed
  qed
  with Cons show ?case by (simp add: startsWith_iff)
qed

lemma passes_here [simp]: "passes ([Txt flag] # v # post) flag v"
  by simp

lemma passes_append: "passes (pre @ [Txt flag] # v # post) flag v"
proof (induction pre)
  case Nil
  show ?case by simp
next
  case (Cons a pre)
  then show ?case by (cases pre) auto
qed

lemma passes_iff: "passes args flag v \<longleftrightarrow> (\<exists>pre post. args = pre @ [Txt flag] # v # post)"
proof
  show "passes args flag v \<Longrightarrow> \<exists>pre post. args = pre @ [Txt flag] # v # post"
  proof (induction args flag v rule: passes.induct)
    case (1 a b rest flag v)
    show ?case
    proof (cases "a = [Txt flag] \<and> b = v")
      case True
      then have "a # b # rest = [] @ [Txt flag] # v # rest" by simp
      then show ?thesis by blast
    next
      case False
      with 1 obtain pre post where "b # rest = pre @ [Txt flag] # v # post" by auto
      then have "a # b # rest = (a # pre) @ [Txt flag] # v # post" by simp
      then show ?thesis by blast
    qed
  qed simp_all
next
  show "\<exists>pre post. args = pre @ [Txt flag] # v # post \<Longrightarrow> passes args flag v"
    using passes_append by blast
qed

section \<open>The concrete platform, evaluated\<close>

lemma demo_extname_mp4: "demo_extname ''/videos/clip.mp4'' = ''.mp4''"
  by (simp add: demo_extname_def)

lemma lower_mp4: "toLowerCase ''.mp4'' = ''.mp4''"
  by (simp add: toLowerCase_def lower_char_def)

lemma demo_resolve_clip:
  "resolveVideoPath demo_host demo_world ''clip'' = Some ''/videos/clip.mp4''"
  by (simp add: resolveVideoPath_def findWithExtensions_def fileExists_def Let_def
      getVideoBaseDir_def demo_host_def demo_world_def demo_extname_def toLowerCase_def
      SUPPORTED_VIDEO_FORMATS_def)

lemma demo_path_valid: "validateVideoPath demo_host demo_world ''clip'' = None"
  by (simp add: validateVideoPath_def demo_resolve_clip isSupportedFormat_def Let_def
      SUPPORTED_VIDEO_FORMATS_def)
    (simp add: demo_host_def demo_extname_mp4 lower_mp4)

lemma demo_parse_60: "demo_parseFloat ''60.000000'' = Some 60"
  by (simp add: demo_parseFloat_def is_digit_def digit_value_def digits_value_def)

lemma demo_parse_negative: "demo_parseFloat ''-1.5'' = Some (- 1.5)"
  by (simp add: demo_parseFloat_def is_digit_def digit_value_def digits_value_def)




text \<open>
  Just below \<open>1024\<^sup>5\<close> the logarithm of the concrete platform is 5: the size is divided
  by \<open>1024\<^sup>5\<close> and no unit is left in the table.
\<close>

lemma formatBytes_below_1024_5: "formatBytes demo_host (2 ^ 50 - 1) = ''1 undefined''"
proof -
  have i: "Math_floor_log demo_host (nat (2 ^ 50 - 1)) 1024 = 5"
    by (simp add: demo_host_def demo_floor_log_def)
  have u: "fixed_units 2 (1125899906842623 / 1125899906842624) = 100"
    by (simp add: fixed_units_def)
  have s: "show_units 2 100 = ''1''"
    by (simp add: show_units_def show_nat.simps [of "Suc 0"] show_nat.simps [of 0]
        digit_def padStart_def)
  show ?thesis
    using i by (simp add: formatBytes_def formatBytes'_def Let_def u s sizes_def)
qed

lemma formatDuration_examples:
  "formatDuration 0 = ''00:00''"
  "formatDuration 65 = ''01:05''"
  "formatDuration 3661 = ''01:01:01''"
  by (simp_all add: formatDuration_def js_rem_def trunc_def show_int_def padStart_def digit_def
      show_nat.simps [of 0] show_nat.simps [of "Suc 0"] show_nat.simps [of 5])

section \<open>The quality mapping\<close>

lemma Math_round_eq_round: "Math_round x = of_int (round x)"
  by (simp add: Math_round_def round_def)

lemma extractFrames_args_quality:
  "passes (extractFrames_args p out options) ''-q:v''
     [Num (spec_native_quality (dflt 75 (po_quality options)))]"
proof -
  let ?seek = "case po_startTime options of
      Some s \<Rightarrow> if s > 0 then [[Txt ''-ss''], [Num s]] else [] | None \<Rightarrow> []"
  let ?limit = "case po_endTime options of
      Some e \<Rightarrow> (case po_startTime options of
         Some s \<Rightarrow> [[Txt ''-t''], [Num (e - s)]] | None \<Rightarrow> [[Txt ''-t''], [Num e]])
    | None \<Rightarrow> []"
  let ?vf = "[[Txt ''-vf''], join_frags [Txt '','']
      [[Txt ''fps=1/'', Num (dflt 2 (po_interval options))],
       [Txt ''scale='', Num (dflt 800 (po_width options)), Txt '':-1'']]]"
  let ?pre = "?seek @ [[Txt ''-i''], [Txt p]] @ ?limit @ ?vf"
  let ?post = "[[Txt ''-frames:v''], [Num (dflt 30 (po_maxFrames options))], [Txt out]]"
  have "extractFrames_args p out options
      = ?pre @ [Txt ''-q:v''] # [Num (spec_native_quality (dflt 75 (po_quality options)))] # ?post"
    by (simp add: extractFrames_args_def Let_def spec_native_quality_def Math_round_eq_round)
  then show ?thesis by (simp only: passes_append)
qed

lemma extractFrameAtTime_args_quality:
  "passes (extractFrameAtTime_args p out t options) ''-q:v''
     [Num (spec_native_quality (dflt 85 (fa_quality options)))]"
  by (simp add: extractFrameAtTime_args_def Let_def spec_native_quality_def Math_round_eq_round)

lemma spec_native_quality_antimono:
  assumes "q1 \<le> q2"
  shows "spec_native_quality q2 \<le> spec_native_quality q1"
proof -
  from assms have "(100 - q2) / 3.2 + 2 \<le> (100 - q1) / 3.2 + 2"
    by (simp add: divide_right_mono)
  then show ?thesis
    unfolding spec_native_quality_def by (simp add: round_mono)
qed

text \<open>
  C1, as the code has it. The decoder's quality argument, in \<^verbatim>\<open>extractFrames\<close> and in
  \<^verbatim>\<open>extractFrameAtTime\<close>, is \<open>round((100 - quality) / 3.2 + 2)\<close> of the request's
  quality (75 and 85 when absent). The mapping is monotonic: a higher quality gives a lower
  or equal native value. Quality 75 maps to 10, and quality 1 maps to 33.
\<close>

theorem C1_quality_mapping:
  "passes (extractFrames_args p out options) ''-q:v''
     [Num (spec_native_quality (dflt 75 (po_quality options)))]
   \<and> passes (extractFrameAtTime_args p out t options') ''-q:v''
       [Num (spec_native_quality (dflt 85 (fa_quality options')))]
   \<and> (q1 \<le> q2 \<longrightarrow> spec_native_quality q2 \<le> spec_native_quality q1)
   \<and> spec_native_quality 75 = 10
   \<and> spec_native_quality 1 = 33"
proof -
  have "spec_native_quality 75 = 10" "spec_native_quality 1 = 33"
    by (simp_all add: spec_native_quality_def round_def)
  then show ?thesis
    using extractFrames_args_quality extractFrameAtTime_args_quality
      spec_native_quality_antimono by blast
qed

theorem C1_quality_mapping_witness:
  "(10::real) \<le> 90 \<and> spec_native_quality 90 \<le> spec_native_quality 10"
  using C1_quality_mapping [of "''/videos/clip.mp4''" "''/tmp/mcp-video-a1/frame_%04d.jpg''"
      "\<lparr>po_interval = None, po_maxFrames = None, po_quality = None, po_width = None,
        po_startTime = None, po_endTime = None\<rparr>"
      0 "\<lparr>fa_quality = None, fa_width = None\<rparr>" 10 90]
  by simp

text \<open>
  The claim's endpoint for quality 1 fails: the decoder is passed 33 for it, not 32.
\<close>

theorem C1_quality_1_counterexample:
  "passes (extractFrames_args ''/videos/clip.mp4'' ''/tmp/mcp-video-a1/frame_%04d.jpg''
       \<lparr>po_interval = None, po_maxFrames = None, po_quality = Some 1, po_width = None,
        po_startTime = None, po_endTime = None\<rparr>) ''-q:v'' [Num 33]
   \<and> \<not> passes (extractFrames_args ''/videos/clip.mp4'' ''/tmp/mcp-video-a1/frame_%04d.jpg''
       \<lparr>po_interval = None, po_maxFrames = None, po_quality = Some 1, po_width = None,
        po_startTime = None, po_endTime = None\<rparr>) ''-q:v'' [Num 32]
   \<and> spec_native_quality 1 \<noteq> 32"
  by (simp add: extractFrames_args_def Let_def Math_round_def spec_native_quality_def round_def)

section \<open>The error classifier\<close>

text \<open>
  \<open>str_includes\<close> is the substring test (lemma \<open>str_includes_iff\<close>).

  C7, as the code has it. The classifier gives the toolchain-missing kind
  (\<^verbatim>\<open>FFMPEG_NOT_FOUND\<close>) exactly when the failure's text contains \<^verbatim>\<open>not found\<close> or
  \<^verbatim>\<open>ENOENT\<close>. Every other failure is the generic toolchain-execution error
  (\<^verbatim>\<open>FFMPEG_ERROR\<close>), with the raw text in its details.
\<close>

theorem C7_error_classifier:
  "(code (createFfmpegError (Error text)) = FFMPEG_NOT_FOUND
      \<longleftrightarrow> str_includes text ''not found'' \<or> str_includes text ''ENOENT'')
   \<and> (code (createFfmpegError (Error text)) \<noteq> FFMPEG_NOT_FOUND
      \<longrightarrow> createFfmpegError (Error text)
          = \<lparr>code = FFMPEG_ERROR,
             message = [Txt (''FFmpeg error: '' @ text)],
             details = Some (OriginalError text),
             suggestion = None\<rparr>)"
  by (simp add: createFfmpegError_def Let_def)

theorem C7_error_classifier_witness:
  "code (createFfmpegError (Error ''ffmpeg exited with code 1: Invalid data found''))
     \<noteq> FFMPEG_NOT_FOUND
   \<and> createFfmpegError (Error ''ffmpeg exited with code 1: Invalid data found'')
       = \<lparr>code = FFMPEG_ERROR,
          message = [Txt (''FFmpeg error: '' @ ''ffmpeg exited with code 1: Invalid data found'')],
          details = Some (OriginalError ''ffmpeg exited with code 1: Invalid data found''),
          suggestion = None\<rparr>"
  using C7_error_classifier [of "''ffmpeg exited with code 1: Invalid data found''"]
  by (simp add: createFfmpegError_def Let_def)

text \<open>
  The claim's test on \<^verbatim>\<open>no such file\<close> fails in both directions: a text that contains it
  is classified as the generic error, and a text with \<^verbatim>\<open>ENOENT\<close>, which contains neither
  of the claim's two substrings, is classified as toolchain-missing.
\<close>

theorem C7_no_such_file_counterexample:
  "str_includes ''ffmpeg exited with code 1: clip.mp4: no such file or directory'' ''no such file''
   \<and> code (createFfmpegError
         (Error ''ffmpeg exited with code 1: clip.mp4: no such file or directory'')) = FFMPEG_ERROR
   \<and> \<not> str_includes ''Failed to run ffmpeg: spawn ffmpeg ENOENT'' ''not found''
   \<and> \<not> str_includes ''Failed to run ffmpeg: spawn ffmpeg ENOENT'' ''no such file''
   \<and> code (createFfmpegError (Error ''Failed to run ffmpeg: spawn ffmpeg ENOENT''))
       = FFMPEG_NOT_FOUND"
  by (simp add: createFfmpegError_def Let_def)

section \<open>The byte formatter\<close>








section \<open>Validation\<close>

lemma validateRange_code: "validateRange v lo hi f = Some e \<Longrightarrow> code e = INVALID_PATH"
  by (auto simp: validateRange_def split: if_splits)

lemma validateRange_None: "validateRange v lo hi f = None \<longleftrightarrow> lo \<le> v \<and> v \<le> hi"
  by (auto simp: validateRange_def)

lemma check_codes:
  "check_interval options = Some e \<Longrightarrow> code e = INVALID_PATH"
  "check_max_frames options = Some e \<Longrightarrow> code e = INVALID_PATH"
  "check_quality options = Some e \<Longrightarrow> code e = INVALID_PATH"
  "check_width options = Some e \<Longrightarrow> code e = INVALID_PATH"
  "check_start_time options = Some e \<Longrightarrow> code e = INVALID_PATH"
  "check_time_window options = Some e \<Longrightarrow> code e = INVALID_PATH"
  by (auto simp: check_interval_def check_max_frames_def check_quality_def check_width_def
      check_start_time_def check_time_window_def
      dest: validateRange_code split: option.splits if_splits)

lemma check_None:
  "check_interval options = None \<longleftrightarrow> in_range 0.1 60 (opt_interval options)"
  "check_max_frames options = None \<longleftrightarrow> in_range 1 500 (opt_max_frames options)"
  "check_quality options = None \<longleftrightarrow> in_range 1 100 (opt_quality options)"
  "check_width options = None \<longleftrightarrow> in_range 100 3840 (opt_width options)"
  by (auto simp: check_interval_def check_max_frames_def check_quality_def check_width_def
      in_range_def validateRange_None split: option.splits)

lemma validate_cascade:
  "validateExtractFramesOptions h w options =
     (case validateVideoPath h w (opt_path options) of Some e \<Rightarrow> Some e | None \<Rightarrow>
      case check_interval options of Some e \<Rightarrow> Some e | None \<Rightarrow>
      case check_max_frames options of Some e \<Rightarrow> Some e | None \<Rightarrow>
      case check_quality options of Some e \<Rightarrow> Some e | None \<Rightarrow>
      case check_width options of Some e \<Rightarrow> Some e | None \<Rightarrow>
      case check_start_time options of Some e \<Rightarrow> Some e | None \<Rightarrow>
      check_time_window options)"
proof -
  have tail: "(if opt_start_time options \<noteq> None \<and> the (opt_start_time options) < 0 then
        Some \<lparr>code = INVALID_PATH,
              message = [Txt ''start_time cannot be negative''],
              details = None,
              suggestion = Some [Txt ''Provide a non-negative start time in seconds'']\<rparr>
      else if opt_end_time options \<noteq> None \<and> opt_start_time options \<noteq> None
              \<and> the (opt_end_time options) \<le> the (opt_start_time options) then
        Some \<lparr>code = INVALID_PATH,
              message = [Txt ''end_time must be greater than start_time''],
              details = None,
              suggestion = Some [Txt ''Ensure end_time is after start_time'']\<rparr>
      else None)
    = (case check_start_time options of Some e \<Rightarrow> Some e | None \<Rightarrow> check_time_window options)"
    by (cases "opt_start_time options"; cases "opt_end_time options")
       (simp_all add: check_start_time_def check_time_window_def)
  show ?thesis
    by (simp only: validateExtractFramesOptions_def tail check_interval_def
        check_max_frames_def check_quality_def check_width_def)
qed

lemma first_violation_single [simp]: "first_violation [x] = x"
  by (cases x) simp_all

lemma validate_first_violation:
  "validateExtractFramesOptions h w options
     = first_violation (map (\<lambda>check. check options) (checks_in_order h w))"
  unfolding validate_cascade checks_in_order_def
  by (simp split: option.splits)

lemma first_violation_member: "first_violation xs = Some e \<Longrightarrow> Some e \<in> set xs"
  by (induction xs rule: first_violation.induct) auto

lemma first_violation_exists: "Some e \<in> set xs \<Longrightarrow> \<exists>e'. first_violation xs = Some e'"
  by (induction xs rule: first_violation.induct) auto

lemma listed_violation_caught:
  assumes "listed_violation options"
  shows "\<exists>e. Some e \<in> {check_interval options, check_max_frames options, check_quality options,
                        check_width options, check_start_time options, check_time_window options}"
proof -
  from assms consider
      "opt_interval options = Some 0" | "opt_interval options = Some 61"
    | "opt_quality options = Some 0" | "opt_quality options = Some 101"
    | "opt_width options = Some 50"
    | "opt_max_frames options = Some 0" | "opt_max_frames options = Some 501"
    | s e where "opt_start_time options = Some s" "opt_end_time options = Some e" "e \<le> s"
    unfolding listed_violation_def by (auto split: option.splits)
  then show ?thesis
  proof cases
    case 1 then have "check_interval options \<noteq> None" by (simp add: check_None in_range_def)
    then show ?thesis by auto
  next
    case 2 then have "check_interval options \<noteq> None" by (simp add: check_None in_range_def)
    then show ?thesis by auto
  next
    case 3 then have "check_quality options \<noteq> None" by (simp add: check_None in_range_def)
    then show ?thesis by auto
  next
    case 4 then have "check_quality options \<noteq> None" by (simp add: check_None in_range_def)
    then show ?thesis by auto
  next
    case 5 then have "check_width options \<noteq> None" by (simp add: check_None in_range_def)
    then show ?thesis by auto
  next
    case 6 then have "check_max_frames options \<noteq> None" by (simp add: check_None in_range_def)
    then show ?thesis by auto
  next
    case 7 then have "check_max_frames options \<noteq> None" by (simp add: check_None in_range_def)
    then show ?thesis by auto
  next
    case 8 then have "check_time_window options \<noteq> None" by (simp add: check_time_window_def)
    then show ?thesis by auto
  qed
qed

lemma fail_fast_example:
  "validateExtractFramesOptions demo_host demo_world
     (demo_request\<lparr>opt_interval := Some 0, opt_quality := Some 101\<rparr>)
   = Some \<lparr>code = INVALID_PATH,
           message = [Txt ''interval must be between '', Num 0.1, Txt '' and '', Num 60],
           details = Some (RangeDetails 0 0.1 60),
           suggestion = Some [Txt ''Adjust interval to be within the valid range'']\<rparr>"
  by (simp add: validate_cascade demo_request_def demo_path_valid check_interval_def
      validateRange_def)

text \<open>
  C4. Validation returns the first violation of the checks in their fixed order (the path,
  the interval, the frame cap, the quality, the width, the start time, the time window),
  and so at most one error. Each of the listed values (interval 0 or 61, quality 0 or 101,
  width 50, frame cap 0 or 501, an end time not after the start time) is rejected; the
  error has the code \<^verbatim>\<open>INVALID_PATH\<close> on every request whose path validates, the
  path being checked first.
\<close>

theorem C4_validation_rejects:
  "validateExtractFramesOptions h w options
     = first_violation (map (\<lambda>check. check options) (checks_in_order h w))
   \<and> (listed_violation options \<longrightarrow> validateExtractFramesOptions h w options \<noteq> None)
   \<and> (validateVideoPath h w (opt_path options) = None \<and> listed_violation options \<longrightarrow>
        (\<exists>e. validateExtractFramesOptions h w options = Some e \<and> code e = INVALID_PATH))"
proof (intro conjI impI)
  show "validateExtractFramesOptions h w options
     = first_violation (map (\<lambda>check. check options) (checks_in_order h w))"
    by (rule validate_first_violation)
next
  assume "listed_violation options"
  with listed_violation_caught obtain e0 where
    "Some e0 \<in> set (map (\<lambda>check. check options) (checks_in_order h w))"
    unfolding checks_in_order_def by fastforce
  then show "validateExtractFramesOptions h w options \<noteq> None"
    unfolding validate_first_violation using first_violation_exists by fastforce
next
  assume a: "validateVideoPath h w (opt_path options) = None \<and> listed_violation options"
  let ?rest = "[check_interval options, check_max_frames options, check_quality options,
                check_width options, check_start_time options, check_time_window options]"
  from a have eq: "validateExtractFramesOptions h w options = first_violation ?rest"
    by (simp add: validate_first_violation checks_in_order_def)
  from a listed_violation_caught obtain e0 where "Some e0 \<in> set ?rest" by fastforce
  then obtain e where e: "first_violation ?rest = Some e"
    using first_violation_exists by blast
  then have "Some e \<in> set ?rest" by (rule first_violation_member)
  then have "code e = INVALID_PATH" using check_codes [of options e] by auto
  with e eq show "\<exists>e. validateExtractFramesOptions h w options = Some e \<and> code e = INVALID_PATH"
    by simp
qed

theorem C4_validation_rejects_witness:
  "(validateVideoPath demo_host demo_world (opt_path (demo_request\<lparr>opt_interval := Some 0\<rparr>)) = None
    \<and> listed_violation (demo_request\<lparr>opt_interval := Some 0\<rparr>))
   \<and> (\<exists>e. validateExtractFramesOptions demo_host demo_world
              (demo_request\<lparr>opt_interval := Some 0\<rparr>) = Some e
          \<and> code e = INVALID_PATH)"
proof -
  have p: "validateVideoPath demo_host demo_world ''clip'' = None"
    by (rule demo_path_valid)
  have h: "validateVideoPath demo_host demo_world
        (opt_path (demo_request\<lparr>opt_interval := Some 0\<rparr>)) = None
      \<and> listed_violation (demo_request\<lparr>opt_interval := Some 0\<rparr>)"
    using p by (simp add: demo_request_def listed_violation_def)
  from C4_validation_rejects [of demo_host demo_world "demo_request\<lparr>opt_interval := Some 0\<rparr>"] h
  show ?thesis by blast
qed

section \<open>Path resolution\<close>

lemma toLowerCase_empty [simp]: "toLowerCase s = [] \<longleftrightarrow> s = []"
  by (simp add: toLowerCase_def)

lemma resolve_candidate:
  "resolveVideoPath h w inputPath = findWithExtensions h w (candidate h inputPath)"
  by (simp add: resolveVideoPath_def candidate_def getVideoBaseDir_def Let_def)

lemma findWithExtensions_existing:
  "isFile w c \<Longrightarrow> findWithExtensions h w c = Some c"
  by (simp add: findWithExtensions_def fileExists_def)

lemma findWithExtensions_probe:
  "\<not> isFile w c \<Longrightarrow> path_extname h c = [] \<Longrightarrow>
   findWithExtensions h w c
     = List.find (isFile w) (map (\<lambda>format. c @ format) SUPPORTED_VIDEO_FORMATS)"
proof -
  have "fileExists w = isFile w" by (rule ext) (simp add: fileExists_def)
  then show "\<not> isFile w c \<Longrightarrow> path_extname h c = [] \<Longrightarrow> ?thesis"
    by (simp add: findWithExtensions_def Let_def)
qed

lemma findWithExtensions_isFile:
  "findWithExtensions h w c = Some r \<Longrightarrow> isFile w r"
  by (auto simp: findWithExtensions_def fileExists_def Let_def find_Some_iff split: if_splits)

lemma findWithExtensions_None:
  assumes "\<not> isFile w c"
    and "path_extname h c \<noteq> [] \<or> (\<forall>f \<in> set SUPPORTED_VIDEO_FORMATS. \<not> isFile w (c @ f))"
  shows "findWithExtensions h w c = None"
  using assms by (auto simp: findWithExtensions_def fileExists_def Let_def find_None_iff)

text \<open>
  C5. An absolute path that names an existing regular file resolves to itself, and so does
  every absolute path that the resolver returns. When the candidate does not exist and has
  no extension, the supported extensions are probed in their declaration order, and the
  first one for which the file exists gives the result. When neither the candidate nor a
  probed name exists, the result is null. The resolver is a total function: it returns a
  path or null, and raises nothing.
\<close>

theorem C5_resolve_video_path:
  "(path_isAbsolute h p \<and> isFile w p \<longrightarrow> resolveVideoPath h w p = Some p)
   \<and> (resolveVideoPath h w p = Some r \<and> path_isAbsolute h r \<longrightarrow> resolveVideoPath h w r = Some r)
   \<and> (\<not> isFile w (candidate h p) \<and> path_extname h (candidate h p) = [] \<longrightarrow>
        resolveVideoPath h w p
          = List.find (isFile w) (map (\<lambda>format. candidate h p @ format) SUPPORTED_VIDEO_FORMATS))
   \<and> (\<not> isFile w (candidate h p) \<and> path_extname h (candidate h p) = []
        \<and> i < length SUPPORTED_VIDEO_FORMATS
        \<and> isFile w (candidate h p @ SUPPORTED_VIDEO_FORMATS ! i)
        \<and> (\<forall>j < i. \<not> isFile w (candidate h p @ SUPPORTED_VIDEO_FORMATS ! j)) \<longrightarrow>
        resolveVideoPath h w p = Some (candidate h p @ SUPPORTED_VIDEO_FORMATS ! i))
   \<and> (\<not> isFile w (candidate h p)
        \<and> (path_extname h (candidate h p) \<noteq> []
            \<or> (\<forall>f \<in> set SUPPORTED_VIDEO_FORMATS. \<not> isFile w (candidate h p @ f))) \<longrightarrow>
        resolveVideoPath h w p = None)
   \<and> SUPPORTED_VIDEO_FORMATS =
        [''.mp4'', ''.webm'', ''.mov'', ''.avi'', ''.mkv'', ''.m4v'',
         ''.flv'', ''.wmv'', ''.gif'', ''.mpeg'', ''.mpg'', ''.3gp'']"
proof (intro conjI impI)
  assume "path_isAbsolute h p \<and> isFile w p"
  then show "resolveVideoPath h w p = Some p"
    by (simp add: resolve_candidate candidate_def findWithExtensions_existing)
next
  assume a: "resolveVideoPath h w p = Some r \<and> path_isAbsolute h r"
  then have "isFile w r"
    by (auto simp: resolve_candidate dest: findWithExtensions_isFile)
  with a show "resolveVideoPath h w r = Some r"
    by (simp add: resolve_candidate candidate_def findWithExtensions_existing)
next
  assume "\<not> isFile w (candidate h p) \<and> path_extname h (candidate h p) = []"
  then show "resolveVideoPath h w p
      = List.find (isFile w) (map (\<lambda>format. candidate h p @ format) SUPPORTED_VIDEO_FORMATS)"
    by (simp add: resolve_candidate findWithExtensions_probe)
next
  let ?xs = "map (\<lambda>format. candidate h p @ format) SUPPORTED_VIDEO_FORMATS"
  assume a: "\<not> isFile w (candidate h p) \<and> path_extname h (candidate h p) = []
        \<and> i < length SUPPORTED_VIDEO_FORMATS
        \<and> isFile w (candidate h p @ SUPPORTED_VIDEO_FORMATS ! i)
        \<and> (\<forall>j < i. \<not> isFile w (candidate h p @ SUPPORTED_VIDEO_FORMATS ! j))"
  then have "i < length ?xs" "isFile w (?xs ! i)" "\<forall>j < i. \<not> isFile w (?xs ! j)"
    by simp_all
  then have "List.find (isFile w) ?xs = Some (?xs ! i)"
    unfolding find_Some_iff by blast
  with a show "resolveVideoPath h w p = Some (candidate h p @ SUPPORTED_VIDEO_FORMATS ! i)"
    by (simp add: resolve_candidate findWithExtensions_probe)
next
  assume "\<not> isFile w (candidate h p)
        \<and> (path_extname h (candidate h p) \<noteq> []
            \<or> (\<forall>f \<in> set SUPPORTED_VIDEO_FORMATS. \<not> isFile w (candidate h p @ f)))"
  then show "resolveVideoPath h w p = None"
    by (simp add: resolve_candidate findWithExtensions_None)
next
  show "SUPPORTED_VIDEO_FORMATS =
        [''.mp4'', ''.webm'', ''.mov'', ''.avi'', ''.mkv'', ''.m4v'',
         ''.flv'', ''.wmv'', ''.gif'', ''.mpeg'', ''.mpg'', ''.3gp'']"
    by (simp add: SUPPORTED_VIDEO_FORMATS_def)
qed

theorem C5_resolve_video_path_witness:
  "path_isAbsolute demo_host ''/videos/clip.mp4'' \<and> isFile demo_world ''/videos/clip.mp4''
   \<and> resolveVideoPath demo_host demo_world ''/videos/clip.mp4'' = Some ''/videos/clip.mp4''
   \<and> \<not> isFile demo_world (candidate demo_host ''clip'')
   \<and> path_extname demo_host (candidate demo_host ''clip'') = []
   \<and> isFile demo_world (candidate demo_host ''clip'' @ SUPPORTED_VIDEO_FORMATS ! 0)
   \<and> isFile demo_world ''/videos/clip.mov''
   \<and> resolveVideoPath demo_host demo_world ''clip'' = Some ''/videos/clip.mp4''
   \<and> resolveVideoPath demo_host demo_world ''clip''
       = List.find (isFile demo_world)
           (map (\<lambda>format. candidate demo_host ''clip'' @ format) SUPPORTED_VIDEO_FORMATS)
   \<and> resolveVideoPath demo_host demo_world
         (the (resolveVideoPath demo_host demo_world ''clip''))
       = resolveVideoPath demo_host demo_world ''clip''
   \<and> \<not> isFile demo_world (candidate demo_host ''missing'')
   \<and> resolveVideoPath demo_host demo_world ''missing'' = None"
proof -
  have c1: "candidate demo_host ''clip'' = ''/videos/clip''"
    and c2: "candidate demo_host ''missing'' = ''/videos/missing''"
    by (simp_all add: candidate_def demo_host_def)
  have e1: "path_extname demo_host ''/videos/clip'' = []"
    by (simp add: demo_host_def demo_extname_def)
  have a: "path_isAbsolute demo_host ''/videos/clip.mp4'' \<and> isFile demo_world ''/videos/clip.mp4''"
    by (simp add: demo_host_def demo_world_def)
  have b: "\<not> isFile demo_world (candidate demo_host ''clip'')
         \<and> path_extname demo_host (candidate demo_host ''clip'') = []
         \<and> 0 < length SUPPORTED_VIDEO_FORMATS
         \<and> isFile demo_world (candidate demo_host ''clip'' @ SUPPORTED_VIDEO_FORMATS ! 0)
         \<and> (\<forall>j < 0. \<not> isFile demo_world (candidate demo_host ''clip'' @ SUPPORTED_VIDEO_FORMATS ! j))"
    unfolding c1 e1 by (simp add: demo_world_def SUPPORTED_VIDEO_FORMATS_def)
  have c: "\<not> isFile demo_world (candidate demo_host ''missing'')
         \<and> (path_extname demo_host (candidate demo_host ''missing'') \<noteq> []
             \<or> (\<forall>f \<in> set SUPPORTED_VIDEO_FORMATS.
                   \<not> isFile demo_world (candidate demo_host ''missing'' @ f)))"
    unfolding c2 by (simp add: demo_world_def SUPPORTED_VIDEO_FORMATS_def)
  have m: "isFile demo_world ''/videos/clip.mov''"
    by (simp add: demo_world_def)
  have f0: "candidate demo_host ''clip'' @ SUPPORTED_VIDEO_FORMATS ! 0 = ''/videos/clip.mp4''"
    unfolding c1 by (simp add: SUPPORTED_VIDEO_FORMATS_def)
  from C5_resolve_video_path [of demo_host "''/videos/clip.mp4''" demo_world
      "''/videos/clip.mp4''" 0] a
  have r1: "resolveVideoPath demo_host demo_world ''/videos/clip.mp4'' = Some ''/videos/clip.mp4''"
    by blast
  from C5_resolve_video_path [of demo_host "''clip''" demo_world "''/videos/clip.mp4''" 0] b
  have "resolveVideoPath demo_host demo_world ''clip''
      = Some (candidate demo_host ''clip'' @ SUPPORTED_VIDEO_FORMATS ! 0)"
    by blast
  then have r2: "resolveVideoPath demo_host demo_world ''clip'' = Some ''/videos/clip.mp4''"
    by (simp only: f0)
  from C5_resolve_video_path [of demo_host "''missing''" demo_world "''/videos/clip.mp4''" 0] c
  have r3: "resolveVideoPath demo_host demo_world ''missing'' = None"
    by blast
  from C5_resolve_video_path [of demo_host "''clip''" demo_world "''/videos/clip.mp4''" 0] b
  have r4: "resolveVideoPath demo_host demo_world ''clip''
       = List.find (isFile demo_world)
           (map (\<lambda>format. candidate demo_host ''clip'' @ format) SUPPORTED_VIDEO_FORMATS)"
    by blast
  from C5_resolve_video_path [of demo_host "''clip''" demo_world "''/videos/clip.mp4''" 0] r2 a
  have "resolveVideoPath demo_host demo_world ''/videos/clip.mp4'' = Some ''/videos/clip.mp4''"
    by blast
  with r2 have r5: "resolveVideoPath demo_host demo_world
         (the (resolveVideoPath demo_host demo_world ''clip''))
       = resolveVideoPath demo_host demo_world ''clip''"
    by simp
  from a b c have parts: "path_isAbsolute demo_host ''/videos/clip.mp4''"
    "isFile demo_world ''/videos/clip.mp4''"
    "\<not> isFile demo_world (candidate demo_host ''clip'')"
    "path_extname demo_host (candidate demo_host ''clip'') = []"
    "isFile demo_world (candidate demo_host ''clip'' @ SUPPORTED_VIDEO_FORMATS ! 0)"
    "\<not> isFile demo_world (candidate demo_host ''missing'')"
    by blast+
  from parts m r1 r2 r3 r4 r5 show ?thesis by (intro conjI)
qed

section \<open>The metadata normalizer\<close>

lemma find_None_image: "List.find (\<lambda>s. f s = v) xs \<noteq> None \<longleftrightarrow> v \<in> f ` set xs"
  by (auto simp: find_None_iff)

text \<open>
  C6, as the code has it. The metadata has \<^verbatim>\<open>has_audio\<close> true exactly when the probe
  document has an audio stream, and \<^verbatim>\<open>audio_codec\<close> is the codec name of the first audio
  stream when that name is present and not empty, and null otherwise; so a non-null
  \<^verbatim>\<open>audio_codec\<close> implies \<^verbatim>\<open>has_audio\<close>. \<^verbatim>\<open>duration_seconds\<close> is the parsed duration
  of the format, and 0 when the duration does not parse; so it is not negative whenever the
  probe reports no negative duration.
\<close>

theorem C6_metadata_invariant:
  "has_audio (parseVideoMetadata h path doc) = (audio \<in> stream_codec_type ` set (streams doc))
   \<and> audio_codec (parseVideoMetadata h path doc)
       = (case List.find (\<lambda>s. stream_codec_type s = audio) (streams doc) of
            None \<Rightarrow> None
          | Some s \<Rightarrow> (case codec_name s of
                        None \<Rightarrow> None
                      | Some c \<Rightarrow> if c \<noteq> [] then Some c else None))
   \<and> (audio_codec (parseVideoMetadata h path doc) \<noteq> None
        \<longrightarrow> has_audio (parseVideoMetadata h path doc))
   \<and> duration_seconds (parseVideoMetadata h path doc)
       = dflt 0 (parseFloat h (format_duration (format doc)))
   \<and> ((parseFloat h (format_duration (format doc)) = None
         \<or> 0 \<le> the (parseFloat h (format_duration (format doc))))
        \<longrightarrow> 0 \<le> duration_seconds (parseVideoMetadata h path doc))"
proof -
  let ?a = "List.find (\<lambda>s. stream_codec_type s = audio) (streams doc)"
  have ha: "has_audio (parseVideoMetadata h path doc) = (?a \<noteq> None)"
    by (simp add: parseVideoMetadata_def Let_def)
  have ac: "audio_codec (parseVideoMetadata h path doc)
      = (if truthy (Option.bind ?a codec_name) then Option.bind ?a codec_name else None)"
    by (simp add: parseVideoMetadata_def Let_def)
  have ds: "duration_seconds (parseVideoMetadata h path doc)
      = dflt 0 (parseFloat h (format_duration (format doc)))"
    by (simp add: parseVideoMetadata_def Let_def)
  have 1: "has_audio (parseVideoMetadata h path doc)
      = (audio \<in> stream_codec_type ` set (streams doc))"
    unfolding ha by (rule find_None_image)
  have 2: "audio_codec (parseVideoMetadata h path doc)
       = (case ?a of
            None \<Rightarrow> None
          | Some s \<Rightarrow> (case codec_name s of
                        None \<Rightarrow> None
                      | Some c \<Rightarrow> if c \<noteq> [] then Some c else None))"
    unfolding ac by (simp split: option.splits)
  have 3: "audio_codec (parseVideoMetadata h path doc) \<noteq> None
        \<longrightarrow> has_audio (parseVideoMetadata h path doc)"
    unfolding ac ha by (cases ?a) simp_all
  have 4: "(parseFloat h (format_duration (format doc)) = None
         \<or> 0 \<le> the (parseFloat h (format_duration (format doc))))
        \<longrightarrow> 0 \<le> duration_seconds (parseVideoMetadata h path doc)"
    unfolding ds by (cases "parseFloat h (format_duration (format doc))") simp_all
  from 1 2 3 ds 4 show ?thesis by (intro conjI)
qed

lemma demo_metadata_facts:
  "audio_codec (parseVideoMetadata demo_host ''/videos/clip.mp4'' demo_probe) = Some ''aac''"
  "parseFloat demo_host (format_duration (format demo_probe)) = Some 60"
  by (simp_all add: parseVideoMetadata_def Let_def demo_probe_def demo_host_def demo_parse_60)

theorem C6_metadata_invariant_witness:
  "(audio_codec (parseVideoMetadata demo_host ''/videos/clip.mp4'' demo_probe) \<noteq> None
    \<and> has_audio (parseVideoMetadata demo_host ''/videos/clip.mp4'' demo_probe))
   \<and> ((parseFloat demo_host (format_duration (format demo_probe)) = None
        \<or> 0 \<le> the (parseFloat demo_host (format_duration (format demo_probe))))
       \<and> 0 \<le> duration_seconds (parseVideoMetadata demo_host ''/videos/clip.mp4'' demo_probe))"
proof -
  have h1: "audio_codec (parseVideoMetadata demo_host ''/videos/clip.mp4'' demo_probe) \<noteq> None"
    by (simp add: demo_metadata_facts)
  have h2: "parseFloat demo_host (format_duration (format demo_probe)) = None
        \<or> 0 \<le> the (parseFloat demo_host (format_duration (format demo_probe)))"
    by (simp add: demo_metadata_facts)
  from C6_metadata_invariant [of demo_host "''/videos/clip.mp4''" demo_probe] h1 h2
  show ?thesis by blast
qed

text \<open>
  The claimed invariant fails on a probe document whose audio stream has no codec name and
  whose format reports a negative duration: the metadata has audio and no audio codec,
  and its duration is negative.
\<close>

theorem C6_invariant_counterexample:
  "has_audio (parseVideoMetadata demo_host ''/videos/clip.mp4'' odd_probe)
   \<and> audio_codec (parseVideoMetadata demo_host ''/videos/clip.mp4'' odd_probe) = None
   \<and> duration_seconds (parseVideoMetadata demo_host ''/videos/clip.mp4'' odd_probe) < 0"
  by (simp add: parseVideoMetadata_def Let_def odd_probe_def demo_host_def demo_parse_negative)

section \<open>The frame loop\<close>

lemma frames_loop_length:
  "frames_loop w s iv i fs = Inr fl \<Longrightarrow> length fl = length fs"
  by (induction fs arbitrary: i fl) (auto simp: Let_def split: sum.splits)

lemma frames_loop_nth:
  "frames_loop w s iv i fs = Inr fl \<Longrightarrow> k < length fs \<Longrightarrow>
     index (fl ! k) = i + k
     \<and> timestamp_seconds (fl ! k) = s + real (i + k) * iv
     \<and> timestamp (fl ! k) = formatDuration (s + real (i + k) * iv)
     \<and> readFileBase64 w (fs ! k) = Inr (image (fl ! k))
     \<and> mime_type (fl ! k) = ''image/jpeg''"
proof (induction fs arbitrary: i fl k)
  case Nil
  then show ?case by simp
next
  case (Cons f fs)
  from Cons.prems(1) obtain b rest where
    b: "readFileBase64 w f = Inr b" and
    rest: "frames_loop w s iv (Suc i) fs = Inr rest" and
    fl: "fl = \<lparr>index = i, timestamp = formatDuration (s + real i * iv),
               timestamp_seconds = s + real i * iv, image = b,
               mime_type = ''image/jpeg''\<rparr> # rest"
    by (auto simp: Let_def readFileAsBase64_def split: sum.splits)
  show ?case
  proof (cases k)
    case 0
    with b fl show ?thesis by simp
  next
    case (Suc k')
    with Cons.prems(2) have "k' < length fs" by simp
    from Cons.IH [OF rest this] Suc fl show ?thesis by simp
  qed
qed

lemma frames_loop_readable:
  "(\<And>f. f \<in> set fs \<Longrightarrow> \<exists>b. readFileBase64 w f = Inr b) \<Longrightarrow>
   \<exists>fl. frames_loop w s iv i fs = Inr fl"
proof (induction fs arbitrary: i)
  case Nil
  show ?case by simp
next
  case (Cons f fs)
  from Cons.prems obtain b where b: "readFileBase64 w f = Inr b" by auto
  from Cons obtain rest where "frames_loop w s iv (Suc i) fs = Inr rest" by auto
  with b show ?case by (simp add: Let_def readFileAsBase64_def)
qed

lemma frames_loop_timestamps:
  assumes "frames_loop w s iv 0 fs = Inr fl"
  shows "map timestamp_seconds fl = sampled_at s iv (length fs)"
    and "map index fl = [0..<length fs]"
    and "map (\<lambda>f. Inr (image f)) fl = map (readFileBase64 w) fs"
proof -
  from assms have len: "length fl = length fs" by (rule frames_loop_length)
  show "map timestamp_seconds fl = sampled_at s iv (length fs)"
    unfolding sampled_at_def
    by (rule nth_equalityI) (use len frames_loop_nth [OF assms] in auto)
  show "map index fl = [0..<length fs]"
    by (rule nth_equalityI) (use len frames_loop_nth [OF assms] in auto)
  show "map (\<lambda>f. Inr (image f)) fl = map (readFileBase64 w) fs"
    by (rule nth_equalityI) (use len frames_loop_nth [OF assms] in auto)
qed

lemma frames_loop_world:
  "readFileBase64 w' = readFileBase64 w \<Longrightarrow> frames_loop w' s iv i fs = frames_loop w s iv i fs"
  by (induction fs arbitrary: i) (auto simp: readFileAsBase64_def Let_def split: sum.splits)

lemma sampled_at_sorted: "0 \<le> iv \<Longrightarrow> sorted (sampled_at s iv n)"
  unfolding sampled_at_def
  by (auto simp: sorted_iff_nth_mono mult_right_mono)

lemma sampled_at_length [simp]: "length (sampled_at s iv n) = n"
  by (simp add: sampled_at_def)

lemma sampled_at_nth: "i < n \<Longrightarrow> sampled_at s iv n ! i = s + real i * iv"
  by (simp add: sampled_at_def)

section \<open>The run of the tool\<close>

lemma getVideoInfo_world: "snd (getVideoInfo h w p) = probed_world h w p"
  by (simp add: getVideoInfo_def probed_world_def probe_event_def Let_def
      split: proc_outcome.splits sum.splits)

lemma getVideoInfo_case:
  "case_prod f (getVideoInfo h w p) = f (fst (getVideoInfo h w p)) (probed_world h w p)"
  by (simp add: split_beta getVideoInfo_world)

lemma probed_world_sel [simp]:
  "isFile (probed_world h w p) = isFile w"
  "existsSync (probed_world h w p) = existsSync w"
  "readdirSync (probed_world h w p) = readdirSync w"
  "readFileBase64 (probed_world h w p) = readFileBase64 w"
  "trace (probed_world h w p) = trace w @ [probe_event h p]"
  by (simp_all add: probed_world_def)

lemma extractFrames_unfold:
  "extractFrames h w input =
     (case validateExtractFramesOptions h w (with_defaults input) of
        Some validationError \<Rightarrow> (Failure validationError, w)
      | None \<Rightarrow>
          if \<not> truthy (resolveVideoPath h w (opt_path input)) then
            (Failure \<lparr>code = FILE_NOT_FOUND,
                      message = [Txt (''Could not resolve video path: '' @ opt_path input)],
                      details = None,
                      suggestion = None\<rparr>, w)
          else
            let rp = the (resolveVideoPath h w (opt_path input));
                up = truthy (opt_output_dir input);
                w1 = probed_world h w rp
            in (case fst (getVideoInfo h w rp) of
                  Inl e \<Rightarrow> (Failure (createFfmpegError e), w1)
                | Inr probeResult \<Rightarrow>
                    let meta = parseVideoMetadata h rp probeResult
                    in if opt_start_time input \<noteq> None
                          \<and> the (opt_start_time input) \<ge> duration_seconds meta then
                         (Failure
                            \<lparr>code = INVALID_PATH,
                             message =
                               [Txt ''start_time ('', Num (the (opt_start_time input)),
                                Txt ''s) exceeds video duration ('',
                                Num (duration_seconds meta), Txt ''s)''],
                             details = None,
                             suggestion =
                               Some [Txt ''Use a start_time less than '',
                                     Num (duration_seconds meta), Txt '' seconds'']\<rparr>, w1)
                       else if up then
                         let existingFramePaths = getExistingFrames h w (the (opt_output_dir input))
                         in if existingFramePaths \<noteq> [] then
                              (case frames_loop w (dflt 0 (opt_start_time input))
                                      (dflt 2 (opt_interval input)) 0 existingFramePaths of
                                 Inl e \<Rightarrow> (Failure (createFfmpegError e), w1)
                               | Inr frameList \<Rightarrow>
                                   (Success
                                      \<lparr>metadata = meta,
                                       frames = frameList,
                                       info = \<lparr>total_frames_extracted = length frameList,
                                               interval_used = dflt 2 (opt_interval input),
                                               info_quality = dflt 75 (opt_quality input),
                                               info_width = dflt 800 (opt_width input)\<rparr>,
                                       frame_paths = Some existingFramePaths,
                                       output_directory = opt_output_dir input\<rparr>, w1))
                            else
                              (case ensureDir h (the (opt_output_dir input)) w1 of
                                 Inl e \<Rightarrow> (Failure (createFfmpegError e), w1)
                               | Inr w2 \<Rightarrow> extract_fresh h w2 rp (with_defaults input) meta up)
                       else extract_fresh h w1 rp (with_defaults input) meta up))"
proof -
  have g: "\<And>d. getExistingFrames h (probed_world h w (the (resolveVideoPath h w (opt_path input)))) d
      = getExistingFrames h w d"
    by (simp add: getExistingFrames_def listFilesWithExtension_def)
  have f: "\<And>s iv i fs. frames_loop (probed_world h w (the (resolveVideoPath h w (opt_path input)))) s iv i fs
      = frames_loop w s iv i fs"
    by (rule frames_loop_world) simp
  have sel: "opt_path (with_defaults input) = opt_path input"
    "opt_interval (with_defaults input) = Some (dflt 2 (opt_interval input))"
    "opt_quality (with_defaults input) = Some (dflt 75 (opt_quality input))"
    "opt_width (with_defaults input) = Some (dflt 800 (opt_width input))"
    "opt_start_time (with_defaults input) = opt_start_time input"
    "opt_output_dir (with_defaults input) = opt_output_dir input"
    by (simp_all add: with_defaults_def)
  have step: "extractFrames h w input =
     (let options = with_defaults input
      in (case validateExtractFramesOptions h w options of
            Some validationError \<Rightarrow> (Failure validationError, w)
          | None \<Rightarrow>
              let resolvedPath = resolveVideoPath h w (opt_path options)
              in if \<not> truthy resolvedPath then
                   (Failure \<lparr>code = FILE_NOT_FOUND,
                             message = [Txt (''Could not resolve video path: '' @ opt_path options)],
                             details = None,
                             suggestion = None\<rparr>, w)
                 else
                   let usePersistentOutput = truthy (opt_output_dir options);
                       (probed, w1) = getVideoInfo h w (the resolvedPath)
                   in (case probed of
                         Inl e \<Rightarrow> catch_block h None usePersistentOutput e w1
                       | Inr probeResult \<Rightarrow>
                           let meta = parseVideoMetadata h (the resolvedPath) probeResult
                           in if opt_start_time options \<noteq> None
                                 \<and> the (opt_start_time options) \<ge> duration_seconds meta then
                                (Failure
                                   \<lparr>code = INVALID_PATH,
                                    message =
                                      [Txt ''start_time ('', Num (the (opt_start_time options)),
                                       Txt ''s) exceeds video duration ('',
                                       Num (duration_seconds meta), Txt ''s)''],
                                    details = None,
                                    suggestion =
                                      Some [Txt ''Use a start_time less than '',
                                            Num (duration_seconds meta), Txt '' seconds'']\<rparr>, w1)
                              else if usePersistentOutput then
                                let existingFramePaths =
                                      getExistingFrames h w1 (the (opt_output_dir options))
                                in if length existingFramePaths > 0 then
                                     (case readExistingFramesFromDisk w1 existingFramePaths
                                             (the (opt_interval options)) (opt_start_time options) of
                                        Inl e \<Rightarrow> catch_block h None usePersistentOutput e w1
                                      | Inr frameList \<Rightarrow>
                                          (Success
                                             \<lparr>metadata = meta,
                                              frames = frameList,
                                              info = \<lparr>total_frames_extracted = length frameList,
                                                      interval_used = the (opt_interval options),
                                                      info_quality = the (opt_quality options),
                                                      info_width = the (opt_width options)\<rparr>,
                                              frame_paths = Some existingFramePaths,
                                              output_directory = opt_output_dir options\<rparr>, w1))
                                   else
                                     (case ensureDir h (the (opt_output_dir options)) w1 of
                                        Inl e \<Rightarrow> catch_block h None usePersistentOutput e w1
                                      | Inr w2 \<Rightarrow>
                                          extract_fresh h w2 (the resolvedPath) options meta
                                            usePersistentOutput)
                              else extract_fresh h w1 (the resolvedPath) options meta
                                     usePersistentOutput)))"
    by (simp only: extractFrames_def with_defaults_def)
  show ?thesis
    by (simp only: step Let_def getVideoInfo_case sel catch_block_def truthy_simps if_False
        simp_thms readExistingFramesFromDisk_def g f option.sel length_greater_0_conv)
qed

lemma cleanupTempDir_trace:
  "trace (cleanupTempDir h t w) = trace w \<or> trace (cleanupTempDir h t w) = trace w @ [RemoveDir t]"
  by (simp add: cleanupTempDir_def rmSync_def Let_def)

lemma runFfmpeg_trace:
  "runFfmpeg h args w = (r, w') \<Longrightarrow> trace w' = trace w @ [RunFfmpeg ([Txt ''-y''] # args)]"
  by (auto simp: runFfmpeg_def Let_def split: prod.splits proc_outcome.splits if_splits)

lemma createTempDir_trace:
  "createTempDir h w = Inr (t, w1) \<Longrightarrow> trace w1 = trace w @ [MakeTempDir t]"
  by (auto simp: createTempDir_def split: sum.splits)

lemma ensureDir_trace:
  "ensureDir h d w = Inr w2 \<Longrightarrow> trace w2 = trace w \<or> trace w2 = trace w @ [MakeDir d]"
  by (auto simp: ensureDir_def split: if_splits option.splits)

lemma ffmpegExtractFrames_run:
  assumes "ffmpegExtractFrames h w p po = (r, w')"
  shows "trace w' = trace w
       \<or> (\<exists>t. trace w' = trace w @ [MakeTempDir t, decoder_event h p po t]
             \<or> trace w' = trace w @ [MakeTempDir t, decoder_event h p po t, RemoveDir t])"
    and "r = Inr (fl, tmp) \<Longrightarrow>
       \<exists>fs. frames_loop w' (dflt 0 (po_startTime po)) (dflt 2 (po_interval po)) 0 fs = Inr fl"
proof -
  show "trace w' = trace w
       \<or> (\<exists>t. trace w' = trace w @ [MakeTempDir t, decoder_event h p po t]
             \<or> trace w' = trace w @ [MakeTempDir t, decoder_event h p po t, RemoveDir t])"
  proof (cases "createTempDir h w")
    case (Inl e)
    with assms show ?thesis by (simp add: ffmpegExtractFrames_def Let_def)
  next
    case (Inr tw)
    obtain t w1 where tw: "tw = (t, w1)" by (cases tw)
    let ?args = "extractFrames_args (normalizePath h p) (path_join h t ''frame_%04d.jpg'') po"
    obtain ran w2 where run: "runFfmpeg h ?args w1 = (ran, w2)" by (cases "runFfmpeg h ?args w1")
    from Inr tw have t1: "trace w1 = trace w @ [MakeTempDir t]"
      by (simp add: createTempDir_trace)
    from run have t2: "trace w2 = trace w1 @ [RunFfmpeg ([Txt ''-y''] # ?args)]"
      by (rule runFfmpeg_trace)
    from t1 t2 have t3: "trace w2 = trace w @ [MakeTempDir t, decoder_event h p po t]"
      by (simp add: decoder_event_def)
    from assms Inr tw run have "w' = w2 \<or> w' = cleanupTempDir h t w2"
      by (auto simp: ffmpegExtractFrames_def Let_def split: sum.splits)
    with t3 cleanupTempDir_trace [of h t w2] show ?thesis by auto
  qed
next
  assume "r = Inr (fl, tmp)"
  with assms show "\<exists>fs. frames_loop w' (dflt 0 (po_startTime po)) (dflt 2 (po_interval po)) 0 fs = Inr fl"
    by (auto simp: ffmpegExtractFrames_def Let_def split: sum.splits prod.splits)
qed

lemma with_defaults_sel [simp]:
  "opt_path (with_defaults input) = opt_path input"
  "opt_interval (with_defaults input) = Some (dflt 2 (opt_interval input))"
  "opt_max_frames (with_defaults input) = Some (dflt 30 (opt_max_frames input))"
  "opt_quality (with_defaults input) = Some (dflt 75 (opt_quality input))"
  "opt_width (with_defaults input) = Some (dflt 800 (opt_width input))"
  "opt_start_time (with_defaults input) = opt_start_time input"
  "opt_end_time (with_defaults input) = opt_end_time input"
  "opt_output_dir (with_defaults input) = opt_output_dir input"
  by (simp_all add: with_defaults_def)

lemma processor_options_sel [simp]:
  "po_interval (processor_options options) = opt_interval options"
  "po_maxFrames (processor_options options) = opt_max_frames options"
  "po_quality (processor_options options) = opt_quality options"
  "po_width (processor_options options) = opt_width options"
  "po_startTime (processor_options options) = opt_start_time options"
  "po_endTime (processor_options options) = opt_end_time options"
  by (simp_all add: processor_options_def)

lemma is_decoder_run_decoder_event [simp]: "is_decoder_run (decoder_event h p po t)"
  by (simp add: decoder_event_def)

lemma ffmpegExtractFrames_events:
  assumes "ffmpegExtractFrames h w p po = (r, w')"
  shows "\<exists>evs. trace w' = trace w @ evs
           \<and> (\<forall>e \<in> set evs. is_decoder_run e \<longrightarrow> (\<exists>t. e = decoder_event h p po t))"
proof -
  from ffmpegExtractFrames_run(1) [OF assms] consider
      "trace w' = trace w @ []"
    | t where "trace w' = trace w @ [MakeTempDir t, decoder_event h p po t]"
    | t where "trace w' = trace w @ [MakeTempDir t, decoder_event h p po t, RemoveDir t]"
    by auto
  then show ?thesis
  proof cases
    case 1
    then show ?thesis by (intro exI [of _ "[]"]) simp
  next
    case (2 t)
    then show ?thesis
      by (intro exI [of _ "[MakeTempDir t, decoder_event h p po t]"]) auto
  next
    case (3 t)
    then show ?thesis
      by (intro exI [of _ "[MakeTempDir t, decoder_event h p po t, RemoveDir t]"]) auto
  qed
qed

lemma extract_fresh_run:
  assumes "extract_fresh h w rp options meta up = (res, w')"
  shows "\<exists>evs. trace w' = trace w @ evs
           \<and> (\<forall>e \<in> set evs. is_decoder_run e \<longrightarrow>
                 (\<exists>t. e = decoder_event h rp (processor_options options) t))"
    and "res = Success r \<Longrightarrow>
       \<exists>wx fs. frames_loop wx (dflt 0 (opt_start_time options)) (dflt 2 (opt_interval options)) 0 fs
                 = Inr (frames r)"
    and "res = Success r \<Longrightarrow> total_frames_extracted (info r) = length (frames r)"
proof -
  let ?po = "processor_options options"
  obtain result w1 where run: "ffmpegExtractFrames h w rp ?po = (result, w1)"
    by (cases "ffmpegExtractFrames h w rp ?po")
  have unf: "extract_fresh h w rp options meta up =
     (case result of
        Inl e \<Rightarrow> (Failure (createFfmpegError e), w1)
      | Inr (frameList, tempDir) \<Rightarrow>
          (Success \<lparr>metadata = meta, frames = frameList,
                    info = \<lparr>total_frames_extracted = length frameList,
                            interval_used = the (opt_interval options),
                            info_quality = the (opt_quality options),
                            info_width = the (opt_width options)\<rparr>,
                    frame_paths = None, output_directory = None\<rparr>,
           if \<not> up then cleanupTempDir h tempDir w1 else w1))"
    using run
    by (simp add: extract_fresh_def processor_options_def [symmetric] Let_def catch_block_def
        split: sum.splits prod.splits)
  from ffmpegExtractFrames_events [OF run] obtain evs1 where
    e1: "trace w1 = trace w @ evs1"
    and d1: "\<forall>e \<in> set evs1. is_decoder_run e \<longrightarrow> (\<exists>t. e = decoder_event h rp ?po t)"
    by blast
  show "\<exists>evs. trace w' = trace w @ evs
           \<and> (\<forall>e \<in> set evs. is_decoder_run e \<longrightarrow> (\<exists>t. e = decoder_event h rp ?po t))"
  proof (cases result)
    case (Inl e)
    with assms unf have "w' = w1" by simp
    with e1 d1 show ?thesis by blast
  next
    case (Inr ft)
    obtain fl tmp where ft: "ft = (fl, tmp)" by (cases ft)
    from assms unf Inr ft have "w' = w1 \<or> w' = cleanupTempDir h tmp w1"
      by (auto split: if_splits)
    with cleanupTempDir_trace [of h tmp w1]
    have "trace w' = trace w1 \<or> trace w' = trace w1 @ [RemoveDir tmp]" by auto
    then show ?thesis
    proof
      assume "trace w' = trace w1"
      with e1 d1 show ?thesis by auto
    next
      assume "trace w' = trace w1 @ [RemoveDir tmp]"
      with e1 have "trace w' = trace w @ (evs1 @ [RemoveDir tmp])" by simp
      moreover from d1 have "\<forall>e \<in> set (evs1 @ [RemoveDir tmp]). is_decoder_run e \<longrightarrow>
          (\<exists>t. e = decoder_event h rp ?po t)" by auto
      ultimately show ?thesis by blast
    qed
  qed
  assume s: "res = Success r"
  with assms unf obtain fl tmp where r: "result = Inr (fl, tmp)" and fr: "frames r = fl"
    and tot: "total_frames_extracted (info r) = length fl"
    by (auto split: sum.splits prod.splits)
  from ffmpegExtractFrames_run(2) [OF run r] fr
  show "\<exists>wx fs. frames_loop wx (dflt 0 (opt_start_time options)) (dflt 2 (opt_interval options)) 0 fs
                 = Inr (frames r)"
    by auto
  from tot fr show "total_frames_extracted (info r) = length (frames r)" by simp
qed

lemma validateVideoPath_None:
  "validateVideoPath h w p = None \<Longrightarrow> truthy (resolveVideoPath h w p)"
  by (auto simp: validateVideoPath_def Let_def split: if_splits)

lemma validate_None_resolves:
  "validateExtractFramesOptions h w options = None \<Longrightarrow>
   truthy (resolveVideoPath h w (opt_path options))"
  by (auto simp: validate_cascade dest: validateVideoPath_None split: option.splits)

lemma getExistingFrames_listing:
  "readdirSync w d = Inr names \<Longrightarrow> getExistingFrames h w d = image_files h d names"
  by (simp add: getExistingFrames_def listFilesWithExtension_def image_files_def)

lemma extractFrames_paths:
  assumes "extractFrames h w input = (res, w')"
  shows "w' = w
     \<or> (\<exists>rp. w' = probed_world h w rp)
     \<or> (\<exists>rp w2 meta.
          (w2 = probed_world h w rp
           \<or> ensureDir h (the (opt_output_dir input)) (probed_world h w rp) = Inr w2)
          \<and> (\<not> truthy (opt_output_dir input)
              \<or> getExistingFrames h w (the (opt_output_dir input)) = [])
          \<and> extract_fresh h w2 rp (with_defaults input) meta (truthy (opt_output_dir input))
              = (res, w'))"
  using assms unfolding extractFrames_unfold Let_def
  by (auto split: option.splits if_splits sum.splits)

lemma cache_hit_success:
  assumes "extractFrames h w input = (Success r, w')"
    and "truthy (opt_output_dir input)"
    and "getExistingFrames h w (the (opt_output_dir input)) \<noteq> []"
  shows "frames_loop w (dflt 0 (opt_start_time input)) (dflt 2 (opt_interval input)) 0
           (getExistingFrames h w (the (opt_output_dir input))) = Inr (frames r)"
    and "frame_paths r = Some (getExistingFrames h w (the (opt_output_dir input)))"
    and "output_directory r = opt_output_dir input"
    and "total_frames_extracted (info r) = length (frames r)"
  using assms unfolding extractFrames_unfold Let_def
  by (auto split: option.splits if_splits sum.splits)

lemma cache_hit_succeeds:
  assumes "validateExtractFramesOptions h w (with_defaults input) = None"
    and "fst (getVideoInfo h w (the (resolveVideoPath h w (opt_path input)))) = Inr doc"
    and "\<not> (opt_start_time input \<noteq> None
           \<and> the (opt_start_time input)
               \<ge> duration_seconds
                    (parseVideoMetadata h (the (resolveVideoPath h w (opt_path input))) doc))"
    and "truthy (opt_output_dir input)"
    and "getExistingFrames h w (the (opt_output_dir input)) \<noteq> []"
    and "frames_loop w (dflt 0 (opt_start_time input)) (dflt 2 (opt_interval input)) 0
           (getExistingFrames h w (the (opt_output_dir input))) = Inr fl"
  shows "\<exists>r. fst (extractFrames h w input) = Success r"
proof -
  from assms(1) have "truthy (resolveVideoPath h w (opt_path input))"
    using validate_None_resolves [of h w "with_defaults input"] by simp
  with assms show ?thesis
    unfolding extractFrames_unfold Let_def by simp
qed

lemma extractFrames_success_cases:
  assumes "extractFrames h w input = (Success r, w')"
  shows "(frames_loop w (dflt 0 (opt_start_time input)) (dflt 2 (opt_interval input)) 0
            (getExistingFrames h w (the (opt_output_dir input))) = Inr (frames r)
          \<and> total_frames_extracted (info r) = length (frames r))
       \<or> (\<exists>rp w2 meta up.
             extract_fresh h w2 rp (with_defaults input) meta up = (Success r, w'))"
  using assms unfolding extractFrames_unfold Let_def
  by (auto split: option.splits if_splits sum.splits)

lemma extractFrames_success:
  assumes "extractFrames h w input = (Success r, w')"
  shows "validateExtractFramesOptions h w (with_defaults input) = None"
    and "\<exists>wx fs. frames_loop wx (dflt 0 (opt_start_time input)) (dflt 2 (opt_interval input)) 0 fs
                  = Inr (frames r)"
    and "total_frames_extracted (info r) = length (frames r)"
proof -
  show "validateExtractFramesOptions h w (with_defaults input) = None"
    using assms unfolding extractFrames_unfold by (auto split: option.splits)
  from extractFrames_success_cases [OF assms]
  have "(\<exists>wx fs. frames_loop wx (dflt 0 (opt_start_time input)) (dflt 2 (opt_interval input)) 0 fs
                  = Inr (frames r))
      \<and> total_frames_extracted (info r) = length (frames r)"
  proof
    assume "frames_loop w (dflt 0 (opt_start_time input)) (dflt 2 (opt_interval input)) 0
            (getExistingFrames h w (the (opt_output_dir input))) = Inr (frames r)
          \<and> total_frames_extracted (info r) = length (frames r)"
    then show ?thesis by blast
  next
    assume "\<exists>rp w2 meta up.
             extract_fresh h w2 rp (with_defaults input) meta up = (Success r, w')"
    then obtain rp w2 meta up where
      f: "extract_fresh h w2 rp (with_defaults input) meta up = (Success r, w')" by blast
    from extract_fresh_run(2) [OF f refl] extract_fresh_run(3) [OF f refl]
    show ?thesis by simp
  qed
  then show "\<exists>wx fs. frames_loop wx (dflt 0 (opt_start_time input)) (dflt 2 (opt_interval input)) 0 fs
                  = Inr (frames r)"
    and "total_frames_extracted (info r) = length (frames r)"
    by auto
qed

lemma validate_valid:
  assumes "validateVideoPath h w (opt_path options) = None"
    and "in_range 0.1 60 (opt_interval options)" and "in_range 1 500 (opt_max_frames options)"
    and "in_range 1 100 (opt_quality options)" and "in_range 100 3840 (opt_width options)"
    and "check_start_time options = None" and "check_time_window options = None"
  shows "validateExtractFramesOptions h w options = None"
proof -
  from assms have "check_interval options = None" "check_max_frames options = None"
    "check_quality options = None" "check_width options = None"
    by (simp_all add: check_None)
  with assms show ?thesis by (simp add: validate_cascade)
qed

lemma validate_None_interval:
  assumes "validateExtractFramesOptions h w (with_defaults input) = None"
  shows "0.1 \<le> dflt 2 (opt_interval input)"
proof -
  from assms have "check_interval (with_defaults input) = None"
    by (auto simp: validate_cascade split: option.splits)
  then show ?thesis by (simp add: check_None in_range_def)
qed

lemma is_decoder_run_probe_event [simp]: "\<not> is_decoder_run (probe_event h p)"
  by (simp add: probe_event_def)

lemma is_removal_probe_event [simp]: "\<not> is_removal (probe_event h p)"
  by (simp add: probe_event_def)

lemma new_events_append: "trace w' = trace w @ evs \<Longrightarrow> new_events w w' = evs"
  by (simp add: new_events_def)

lemma extractFrames_events:
  assumes "extractFrames h w input = (res, w')"
  shows "\<exists>evs. trace w' = trace w @ evs
           \<and> (\<forall>e \<in> set evs. is_decoder_run e \<longrightarrow>
                 (\<exists>rp t. e = decoder_event h rp (processor_options (with_defaults input)) t))"
proof -
  let ?po = "processor_options (with_defaults input)"
  let ?d = "the (opt_output_dir input)"
  from extractFrames_paths [OF assms] consider
      (early) "w' = w"
    | (probed) rp where "w' = probed_world h w rp"
    | (fresh) rp w2 meta where
        "w2 = probed_world h w rp \<or> ensureDir h ?d (probed_world h w rp) = Inr w2"
        "extract_fresh h w2 rp (with_defaults input) meta (truthy (opt_output_dir input)) = (res, w')"
    by blast
  then show ?thesis
  proof cases
    case early
    then show ?thesis by (intro exI [of _ "[]"]) simp
  next
    case (probed rp)
    then show ?thesis by (intro exI [of _ "[probe_event h rp]"]) simp
  next
    case (fresh rp w2 meta)
    from fresh(1) have "trace w2 = trace w @ [probe_event h rp]
        \<or> trace w2 = trace w @ [probe_event h rp, MakeDir ?d]"
      using ensureDir_trace [of h ?d "probed_world h w rp" w2] by auto
    then obtain evs1 where t2: "trace w2 = trace w @ evs1"
      and n1: "\<forall>e \<in> set evs1. \<not> is_decoder_run e"
      by auto
    from extract_fresh_run(1) [OF fresh(2)] obtain evs2 where
      t3: "trace w' = trace w2 @ evs2"
      and d2: "\<forall>e \<in> set evs2. is_decoder_run e \<longrightarrow> (\<exists>t. e = decoder_event h rp ?po t)"
      by blast
    from t2 t3 have "trace w' = trace w @ (evs1 @ evs2)" by simp
    moreover have "\<forall>e \<in> set (evs1 @ evs2). is_decoder_run e \<longrightarrow>
        (\<exists>rp t. e = decoder_event h rp ?po t)"
      unfolding set_append ball_Un using n1 d2 by blast
    ultimately show ?thesis by blast
  qed
qed

lemma end_only_passes:
  assumes "po_startTime po = None" and "po_endTime po = Some e"
  shows "passes ([Txt ''-y''] # extractFrames_args np pat po) ''-t'' [Num e]"
proof -
  from assms have "\<exists>rest. [Txt ''-y''] # extractFrames_args np pat po
      = [[Txt ''-y''], [Txt ''-i''], [Txt np]] @ [Txt ''-t''] # [Num e] # rest"
    by (simp add: extractFrames_args_def Let_def)
  then show ?thesis using passes_append by metis
qed

lemma frame_cap_passes:
  "passes ([Txt ''-y''] # extractFrames_args np pat po) ''-frames:v'' [Num (dflt 30 (po_maxFrames po))]"
proof -
  let ?seek = "case po_startTime po of
      Some s \<Rightarrow> if s > 0 then [[Txt ''-ss''], [Num s]] else [] | None \<Rightarrow> []"
  let ?limit = "case po_endTime po of
      Some e \<Rightarrow> (case po_startTime po of
         Some s \<Rightarrow> [[Txt ''-t''], [Num (e - s)]] | None \<Rightarrow> [[Txt ''-t''], [Num e]])
    | None \<Rightarrow> []"
  let ?pre = "[Txt ''-y''] # ?seek @ [[Txt ''-i''], [Txt np]] @ ?limit
      @ [[Txt ''-vf''], join_frags [Txt '','']
           [[Txt ''fps=1/'', Num (dflt 2 (po_interval po))],
            [Txt ''scale='', Num (dflt 800 (po_width po)), Txt '':-1'']],
         [Txt ''-q:v''], [Num (Math_round ((100 - dflt 75 (po_quality po)) / 3.2 + 2))]]"
  have "[Txt ''-y''] # extractFrames_args np pat po
      = ?pre @ [Txt ''-frames:v''] # [Num (dflt 30 (po_maxFrames po))] # [[Txt pat]]"
    by (simp add: extractFrames_args_def Let_def)
  then show ?thesis by (simp only: passes_append)
qed

lemma image_files_nonempty:
  "image_files h d names \<noteq> [] \<longleftrightarrow> (\<exists>n \<in> set names. endsWith n ''.jpg'')"
proof -
  have "length (image_files h d names) = length (filter (\<lambda>n. endsWith n ''.jpg'') names)"
    by (simp add: image_files_def)
  then have "image_files h d names = [] \<longleftrightarrow> filter (\<lambda>n. endsWith n ''.jpg'') names = []"
    by (metis length_0_conv)
  then show ?thesis by (auto simp: filter_empty_conv)
qed

lemma same_files_refl [simp]: "same_files w w"
  by (simp add: same_files_def)

lemma same_files_probed [simp]: "same_files w (probed_world h w p)"
  by (simp add: same_files_def)

lemma cache_hit_world:
  assumes "extractFrames h w input = (res, w')"
    and "truthy (opt_output_dir input)"
    and "getExistingFrames h w (the (opt_output_dir input)) \<noteq> []"
  shows "w' = w \<or> (\<exists>rp. w' = probed_world h w rp)"
proof -
  from extractFrames_paths [OF assms(1)] assms(2,3) show ?thesis by blast
qed

lemma ffmpegExtractFrames_frames:
  assumes "ffmpegExtractFrames h w p po = (Inr (fl, t), wd)"
  shows "\<exists>names. readdirSync wd t = Inr names
           \<and> frames_loop wd (dflt 0 (po_startTime po)) (dflt 2 (po_interval po)) 0
               (image_files h t names) = Inr fl"
  using assms
  by (auto simp: ffmpegExtractFrames_def Let_def listFilesWithExtension_def image_files_def
      split: sum.splits prod.splits)

lemma extract_fresh_frames:
  assumes "extract_fresh h w rp options meta up = (Success r, w')"
  shows "\<exists>t wd. ffmpegExtractFrames h w rp (processor_options options) = (Inr (frames r, t), wd)"
proof -
  let ?po = "processor_options options"
  obtain result w1 where run: "ffmpegExtractFrames h w rp ?po = (result, w1)"
    by (cases "ffmpegExtractFrames h w rp ?po")
  from assms run obtain fl tmp where "result = Inr (fl, tmp)" and "frames r = fl"
    by (auto simp: extract_fresh_def processor_options_def [symmetric] Let_def catch_block_def
        split: sum.splits prod.splits if_splits)
  with run show ?thesis by auto
qed

lemma extractFrames_fresh_success:
  assumes "extractFrames h w input = (Success r, w')"
    and "\<not> truthy (opt_output_dir input)
         \<or> getExistingFrames h w (the (opt_output_dir input)) = []"
  shows "\<exists>w2 meta.
           (w2 = probed_world h w (the (resolveVideoPath h w (opt_path input)))
            \<or> ensureDir h (the (opt_output_dir input))
                 (probed_world h w (the (resolveVideoPath h w (opt_path input)))) = Inr w2)
           \<and> extract_fresh h w2 (the (resolveVideoPath h w (opt_path input)))
                 (with_defaults input) meta (truthy (opt_output_dir input)) = (Success r, w')"
  using assms unfolding extractFrames_unfold Let_def
  by (auto split: option.splits if_splits sum.splits)

section \<open>The concrete platform, run\<close>

lemma demo_validates:
  assumes "opt_path req = ''clip''"
    and "in_range 0.1 60 (opt_interval req)" and "in_range 1 500 (opt_max_frames req)"
    and "in_range 1 100 (opt_quality req)" and "in_range 100 3840 (opt_width req)"
    and "check_start_time req = None" and "check_time_window req = None"
  shows "validateExtractFramesOptions demo_host demo_world (with_defaults req) = None"
proof (rule validate_valid)
  show "validateVideoPath demo_host demo_world (opt_path (with_defaults req)) = None"
    using assms(1) by (simp add: demo_path_valid)
  show "in_range 0.1 60 (opt_interval (with_defaults req))"
    using assms(2) by (cases "opt_interval req") (simp_all add: in_range_def)
  show "in_range 1 500 (opt_max_frames (with_defaults req))"
    using assms(3) by (cases "opt_max_frames req") (simp_all add: in_range_def)
  show "in_range 1 100 (opt_quality (with_defaults req))"
    using assms(4) by (cases "opt_quality req") (simp_all add: in_range_def)
  show "in_range 100 3840 (opt_width (with_defaults req))"
    using assms(5) by (cases "opt_width req") (simp_all add: in_range_def)
  show "check_start_time (with_defaults req) = None"
    using assms(6) by (simp add: check_start_time_def)
  show "check_time_window (with_defaults req) = None"
    using assms(7) by (simp add: check_time_window_def)
qed

lemma demo_probe_result: "fst (getVideoInfo demo_host w p) = Inr demo_probe"
  by (simp add: getVideoInfo_def demo_host_def Let_def)

lemma demo_duration:
  "duration_seconds (parseVideoMetadata demo_host p demo_probe) = 60"
  by (simp add: parseVideoMetadata_def Let_def demo_probe_def demo_host_def demo_parse_60)

lemma demo_listing:
  "readdirSync demo_world ''/videos/frames''
     = Inr [''frame_0002.jpg'', ''frame_0001.jpg'', ''notes.txt'', ''frame_0003.jpg'']"
  by (simp add: demo_world_def)

lemma demo_image_files:
  "image_files demo_host ''/videos/frames''
       [''frame_0002.jpg'', ''frame_0001.jpg'', ''notes.txt'', ''frame_0003.jpg'']
     = [''/videos/frames/frame_0001.jpg'', ''/videos/frames/frame_0002.jpg'',
        ''/videos/frames/frame_0003.jpg'']"
  by (simp add: image_files_def endsWith_def demo_host_def)

lemma demo_readable:
  "f \<in> set [''/videos/frames/frame_0001.jpg'', ''/videos/frames/frame_0002.jpg'',
            ''/videos/frames/frame_0003.jpg'']
   \<Longrightarrow> \<exists>b. readFileBase64 demo_world f = Inr b"
  by (auto simp: demo_world_def)

text \<open>
  A request for \<^verbatim>\<open>clip\<close> without an output directory runs the decoder, which leaves
  three frames, and the temporary directory is removed.
\<close>

lemma demo_fresh_run:
  assumes p: "opt_path req = ''clip''"
    and v: "validateExtractFramesOptions demo_host demo_world (with_defaults req) = None"
    and o: "opt_output_dir req = None"
    and s: "dflt 0 (opt_start_time req) < 60"
  shows "\<exists>r w'. extractFrames demo_host demo_world req = (Success r, w')
      \<and> length (frames r) = 3
      \<and> new_events demo_world w'
          = [probe_event demo_host ''/videos/clip.mp4'',
             MakeTempDir ''/tmp/mcp-video-a1'',
             decoder_event demo_host ''/videos/clip.mp4''
               (processor_options (with_defaults req)) ''/tmp/mcp-video-a1'',
             RemoveDir ''/tmp/mcp-video-a1'']"
proof -
  have r: "resolveVideoPath demo_host demo_world (opt_path req) = Some ''/videos/clip.mp4''"
    by (simp add: p demo_resolve_clip)
  have late: "\<not> (opt_start_time req \<noteq> None \<and> 60 \<le> the (opt_start_time req))"
    using s by (cases "opt_start_time req") simp_all
  have mk: "mkdtempSync demo_host = (\<lambda>prefix w. Inr ''/tmp/mcp-video-a1'')"
    "ffmpeg demo_host = demo_ffmpeg" "path_join demo_host = (\<lambda>a b. a @ ''/'' @ b)"
    by (simp_all add: demo_host_def)
  have t: "trace demo_world = []"
    by (simp add: demo_world_def)
  show ?thesis
    unfolding extractFrames_unfold using late
    by (simp add: v r o demo_probe_result demo_duration Let_def
        extract_fresh_def ffmpegExtractFrames_def createTempDir_def runFfmpeg_def mk
        demo_ffmpeg_def listFilesWithExtension_def endsWith_def readFileAsBase64_def
        cleanupTempDir_def rmSync_def new_events_def probed_world_def t
        decoder_event_def processor_options_def catch_block_def)
qed

text \<open>
  A request for \<^verbatim>\<open>clip\<close> with the output directory \<^verbatim>\<open>/videos/frames\<close> succeeds.
\<close>

lemma demo_cached_run:
  assumes p: "opt_path req = ''clip''"
    and v: "validateExtractFramesOptions demo_host demo_world (with_defaults req) = None"
    and o: "opt_output_dir req = Some ''/videos/frames''"
    and s: "dflt 0 (opt_start_time req) < 60"
  shows "\<exists>r w'. extractFrames demo_host demo_world req = (Success r, w')"
proof -
  let ?paths = "[''/videos/frames/frame_0001.jpg'', ''/videos/frames/frame_0002.jpg'',
                 ''/videos/frames/frame_0003.jpg'']"
  have e: "getExistingFrames demo_host demo_world ''/videos/frames'' = ?paths"
    by (simp add: getExistingFrames_listing [OF demo_listing] demo_image_files)
  have late: "\<not> (opt_start_time req \<noteq> None
      \<and> the (opt_start_time req)
          \<ge> duration_seconds (parseVideoMetadata demo_host
                (the (resolveVideoPath demo_host demo_world (opt_path req))) demo_probe))"
    using s by (cases "opt_start_time req") (simp_all add: demo_duration)
  obtain fl where fl: "frames_loop demo_world (dflt 0 (opt_start_time req))
      (dflt 2 (opt_interval req)) 0 ?paths = Inr fl"
    using frames_loop_readable [OF demo_readable] by blast
  have tr: "truthy (opt_output_dir req)"
    by (simp add: o)
  have ne: "getExistingFrames demo_host demo_world (the (opt_output_dir req)) \<noteq> []"
    by (simp add: o e)
  have fl': "frames_loop demo_world (dflt 0 (opt_start_time req)) (dflt 2 (opt_interval req)) 0
      (getExistingFrames demo_host demo_world (the (opt_output_dir req))) = Inr fl"
    using fl by (simp only: o e option.sel)
  have "\<exists>r. fst (extractFrames demo_host demo_world req) = Success r"
    by (rule cache_hit_succeeds [OF v demo_probe_result late tr ne fl'])
  then show ?thesis by (metis prod.collapse)
qed

lemma demo_shots_listing:
  "readdirSync demo_world ''/videos/shots''
     = Inr [''frame_0001.jpg'', ''frame_0002.jpg'', ''frame_0003.jpg'', ''frame_0004.jpg'',
            ''frame_0005.jpg'']"
  by (simp add: demo_world_def)

lemma demo_shots_files:
  "image_files demo_host ''/videos/shots''
       [''frame_0001.jpg'', ''frame_0002.jpg'', ''frame_0003.jpg'', ''frame_0004.jpg'',
        ''frame_0005.jpg'']
     = [''/videos/shots/frame_0001.jpg'', ''/videos/shots/frame_0002.jpg'',
        ''/videos/shots/frame_0003.jpg'', ''/videos/shots/frame_0004.jpg'',
        ''/videos/shots/frame_0005.jpg'']"
  by (simp add: image_files_def endsWith_def demo_host_def)

lemma demo_shots_readable:
  "f \<in> set [''/videos/shots/frame_0001.jpg'', ''/videos/shots/frame_0002.jpg'',
            ''/videos/shots/frame_0003.jpg'', ''/videos/shots/frame_0004.jpg'',
            ''/videos/shots/frame_0005.jpg'']
   \<Longrightarrow> readFileBase64 demo_world f = Inr ''/9j/4AAQ''"
  by (auto simp: demo_world_def)

text \<open>
  A request for \<^verbatim>\<open>clip\<close> with the output directory \<^verbatim>\<open>/videos/shots\<close> succeeds.
\<close>

lemma demo_shots_run:
  assumes p: "opt_path req = ''clip''"
    and v: "validateExtractFramesOptions demo_host demo_world (with_defaults req) = None"
    and o: "opt_output_dir req = Some ''/videos/shots''"
    and s: "dflt 0 (opt_start_time req) < 60"
  shows "\<exists>r w'. extractFrames demo_host demo_world req = (Success r, w')"
proof -
  let ?paths = "[''/videos/shots/frame_0001.jpg'', ''/videos/shots/frame_0002.jpg'',
                 ''/videos/shots/frame_0003.jpg'', ''/videos/shots/frame_0004.jpg'',
                 ''/videos/shots/frame_0005.jpg'']"
  have e: "getExistingFrames demo_host demo_world ''/videos/shots'' = ?paths"
    by (simp add: getExistingFrames_listing [OF demo_shots_listing] demo_shots_files)
  have late: "\<not> (opt_start_time req \<noteq> None
      \<and> the (opt_start_time req)
          \<ge> duration_seconds (parseVideoMetadata demo_host
                (the (resolveVideoPath demo_host demo_world (opt_path req))) demo_probe))"
    using s by (cases "opt_start_time req") (simp_all add: demo_duration)
  have "\<And>f. f \<in> set ?paths \<Longrightarrow> \<exists>b. readFileBase64 demo_world f = Inr b"
    using demo_shots_readable by blast
  then obtain fl where fl: "frames_loop demo_world (dflt 0 (opt_start_time req))
      (dflt 2 (opt_interval req)) 0 ?paths = Inr fl"
    using frames_loop_readable by blast
  have tr: "truthy (opt_output_dir req)"
    by (simp add: o)
  have ne: "getExistingFrames demo_host demo_world (the (opt_output_dir req)) \<noteq> []"
    by (simp add: o e)
  have fl': "frames_loop demo_world (dflt 0 (opt_start_time req)) (dflt 2 (opt_interval req)) 0
      (getExistingFrames demo_host demo_world (the (opt_output_dir req))) = Inr fl"
    using fl by (simp only: o e option.sel)
  have "\<exists>r. fst (extractFrames demo_host demo_world req) = Success r"
    by (rule cache_hit_succeeds [OF v demo_probe_result late tr ne fl'])
  then show ?thesis by (metis prod.collapse)
qed

section \<open>Reuse of a persistent output directory\<close>

lemma image_files_sorted: "sorted (image_files h d names)"
  by (simp add: image_files_def)

lemma image_files_set:
  "set (image_files h d names) = path_join h d ` {n \<in> set names. endsWith n ''.jpg''}"
  by (auto simp: image_files_def)

lemma image_files_length:
  "length (image_files h d names) = length (filter (\<lambda>n. endsWith n ''.jpg'') names)"
  by (simp add: image_files_def)

lemma cache_hit_facts:
  assumes od: "opt_output_dir input = Some d" "d \<noteq> []"
    and ls: "readdirSync w d = Inr names"
    and jpg: "\<exists>n \<in> set names. endsWith n ''.jpg''"
  shows "truthy (opt_output_dir input)"
    and "getExistingFrames h w (the (opt_output_dir input)) = image_files h d names"
    and "getExistingFrames h w (the (opt_output_dir input)) \<noteq> []"
proof -
  show "truthy (opt_output_dir input)" using od by simp
  show e: "getExistingFrames h w (the (opt_output_dir input)) = image_files h d names"
    using od ls by (simp add: getExistingFrames_listing)
  from jpg have "image_files h d names \<noteq> []" by (simp add: image_files_nonempty)
  with e show "getExistingFrames h w (the (opt_output_dir input)) \<noteq> []" by simp
qed

lemma cache_hit_untouched:
  assumes "w' = w \<or> (\<exists>rp. w' = probed_world h w rp)"
  shows "\<forall>e \<in> set (new_events w w'). \<not> is_decoder_run e \<and> \<not> is_removal e"
    and "same_files w w'"
  using assms by (auto simp: new_events_def)

text \<open>
  C2. Take a call of \<^verbatim>\<open>extract_frames\<close> whose output directory is given and lists at
  least one \<^verbatim>\<open>.jpg\<close> entry, the image files that the pipeline knows. Whatever the call
  returns, it runs no decoder and removes no directory, and the file system after it is the
  one before it. When it succeeds, its frame paths are the image files of the directory,
  sorted; its frames are these files, read in that order, with indices from 0 and with
  timestamps \<open>start_time (or 0) + index * interval\<close> of the request. It succeeds whenever
  the request validates, the probe answers, the start time lies before the probed duration
  and the image files can be read.
\<close>

theorem C2_cache_hit:
  "opt_output_dir input = Some d \<and> d \<noteq> [] \<and> readdirSync w d = Inr names
     \<and> (\<exists>n \<in> set names. endsWith n ''.jpg'')
     \<and> extractFrames h w input = (res, w')
   \<longrightarrow>
     (\<forall>e \<in> set (new_events w w'). \<not> is_decoder_run e \<and> \<not> is_removal e)
     \<and> same_files w w'
     \<and> sorted (image_files h d names)
     \<and> set (image_files h d names) = path_join h d ` {n \<in> set names. endsWith n ''.jpg''}
     \<and> (\<forall>r. res = Success r \<longrightarrow>
           frame_paths r = Some (image_files h d names)
           \<and> map index (frames r) = [0..<length (image_files h d names)]
           \<and> map timestamp_seconds (frames r)
               = sampled_at (dflt 0 (opt_start_time input)) (dflt 2 (opt_interval input))
                   (length (image_files h d names))
           \<and> map (\<lambda>f. Inr (image f)) (frames r)
               = map (readFileBase64 w) (image_files h d names))
     \<and> (validateExtractFramesOptions h w (with_defaults input) = None
         \<and> (\<exists>doc. fst (getVideoInfo h w (the (resolveVideoPath h w (opt_path input)))) = Inr doc
                \<and> (opt_start_time input = None
                    \<or> the (opt_start_time input)
                        < duration_seconds
                            (parseVideoMetadata h
                               (the (resolveVideoPath h w (opt_path input))) doc)))
         \<and> (\<forall>p \<in> set (image_files h d names). \<exists>b. readFileBase64 w p = Inr b)
        \<longrightarrow> (\<exists>r. res = Success r))"
proof (intro impI)
  assume a: "opt_output_dir input = Some d \<and> d \<noteq> [] \<and> readdirSync w d = Inr names
     \<and> (\<exists>n \<in> set names. endsWith n ''.jpg'')
     \<and> extractFrames h w input = (res, w')"
  then have od: "opt_output_dir input = Some d" "d \<noteq> []"
    and ls: "readdirSync w d = Inr names"
    and jpg: "\<exists>n \<in> set names. endsWith n ''.jpg''"
    and run: "extractFrames h w input = (res, w')"
    by simp_all
  note hit = cache_hit_facts [OF od ls jpg]
  let ?fs = "image_files h d names"
  let ?s = "dflt 0 (opt_start_time input)" and ?iv = "dflt 2 (opt_interval input)"
  from cache_hit_world [OF run hit(1) hit(3)]
  have world: "w' = w \<or> (\<exists>rp. w' = probed_world h w rp)" .
  have 1: "\<forall>e \<in> set (new_events w w'). \<not> is_decoder_run e \<and> \<not> is_removal e"
    and 2: "same_files w w'"
    using cache_hit_untouched [OF world] by simp_all
  have 3: "\<forall>r. res = Success r \<longrightarrow>
           frame_paths r = Some ?fs
           \<and> map index (frames r) = [0..<length ?fs]
           \<and> map timestamp_seconds (frames r) = sampled_at ?s ?iv (length ?fs)
           \<and> map (\<lambda>f. Inr (image f)) (frames r) = map (readFileBase64 w) ?fs"
  proof (intro allI impI)
    fix r assume "res = Success r"
    with run have s: "extractFrames h w input = (Success r, w')" by simp
    from cache_hit_success(1) [OF s hit(1) hit(3)]
    have loop: "frames_loop w ?s ?iv 0 ?fs = Inr (frames r)" by (simp add: hit(2))
    from cache_hit_success(2) [OF s hit(1) hit(3)]
    have "frame_paths r = Some ?fs" by (simp add: hit(2))
    with frames_loop_timestamps [OF loop]
    show "frame_paths r = Some ?fs
           \<and> map index (frames r) = [0..<length ?fs]
           \<and> map timestamp_seconds (frames r) = sampled_at ?s ?iv (length ?fs)
           \<and> map (\<lambda>f. Inr (image f)) (frames r) = map (readFileBase64 w) ?fs"
      by simp
  qed
  have 4: "validateExtractFramesOptions h w (with_defaults input) = None
         \<and> (\<exists>doc. fst (getVideoInfo h w (the (resolveVideoPath h w (opt_path input)))) = Inr doc
                \<and> (opt_start_time input = None
                    \<or> the (opt_start_time input)
                        < duration_seconds
                            (parseVideoMetadata h
                               (the (resolveVideoPath h w (opt_path input))) doc)))
         \<and> (\<forall>p \<in> set ?fs. \<exists>b. readFileBase64 w p = Inr b)
        \<longrightarrow> (\<exists>r. res = Success r)"
  proof
    assume b: "validateExtractFramesOptions h w (with_defaults input) = None
         \<and> (\<exists>doc. fst (getVideoInfo h w (the (resolveVideoPath h w (opt_path input)))) = Inr doc
                \<and> (opt_start_time input = None
                    \<or> the (opt_start_time input)
                        < duration_seconds
                            (parseVideoMetadata h
                               (the (resolveVideoPath h w (opt_path input))) doc)))
         \<and> (\<forall>p \<in> set ?fs. \<exists>b. readFileBase64 w p = Inr b)"
    then obtain doc where
      v: "validateExtractFramesOptions h w (with_defaults input) = None"
      and p: "fst (getVideoInfo h w (the (resolveVideoPath h w (opt_path input)))) = Inr doc"
      and early: "\<not> (opt_start_time input \<noteq> None
           \<and> the (opt_start_time input)
               \<ge> duration_seconds
                    (parseVideoMetadata h (the (resolveVideoPath h w (opt_path input))) doc))"
      and rd: "\<And>p. p \<in> set ?fs \<Longrightarrow> \<exists>b. readFileBase64 w p = Inr b"
      by auto
    from frames_loop_readable [of ?fs w ?s ?iv 0] rd obtain fl where
      "frames_loop w ?s ?iv 0 ?fs = Inr fl" by blast
    then have fl: "frames_loop w ?s ?iv 0 (getExistingFrames h w (the (opt_output_dir input)))
        = Inr fl" by (simp add: hit(2))
    from cache_hit_succeeds [OF v p early hit(1) hit(3) fl] run
    show "\<exists>r. res = Success r" by simp
  qed
  from 1 2 3 4 image_files_sorted [of h d names] image_files_set [of h d names]
  show "(\<forall>e \<in> set (new_events w w'). \<not> is_decoder_run e \<and> \<not> is_removal e)
     \<and> same_files w w'
     \<and> sorted ?fs
     \<and> set ?fs = path_join h d ` {n \<in> set names. endsWith n ''.jpg''}
     \<and> (\<forall>r. res = Success r \<longrightarrow>
           frame_paths r = Some ?fs
           \<and> map index (frames r) = [0..<length ?fs]
           \<and> map timestamp_seconds (frames r) = sampled_at ?s ?iv (length ?fs)
           \<and> map (\<lambda>f. Inr (image f)) (frames r) = map (readFileBase64 w) ?fs)
     \<and> (validateExtractFramesOptions h w (with_defaults input) = None
         \<and> (\<exists>doc. fst (getVideoInfo h w (the (resolveVideoPath h w (opt_path input)))) = Inr doc
                \<and> (opt_start_time input = None
                    \<or> the (opt_start_time input)
                        < duration_seconds
                            (parseVideoMetadata h
                               (the (resolveVideoPath h w (opt_path input))) doc)))
         \<and> (\<forall>p \<in> set ?fs. \<exists>b. readFileBase64 w p = Inr b)
        \<longrightarrow> (\<exists>r. res = Success r))"
    by (intro conjI)
qed

lemma sampled_at_3:
  "sampled_at s iv 3 = [s, s + iv, s + 2 * iv]"
  "sampled_at s iv (Suc (Suc (Suc 0))) = [s, s + iv, s + 2 * iv]"
  by (simp_all add: sampled_at_def numeral_3_eq_3)

lemma sampled_at_5:
  "sampled_at s iv 5 = [s, s + iv, s + 2 * iv, s + 3 * iv, s + 4 * iv]"
  "sampled_at s iv (Suc (Suc (Suc (Suc (Suc 0))))) = [s, s + iv, s + 2 * iv, s + 3 * iv, s + 4 * iv]"
proof -
  have u: "[0..<5] = [0, 1, 2, 3, 4::nat]"
    by (simp add: upt_rec)
  show a: "sampled_at s iv 5 = [s, s + iv, s + 2 * iv, s + 3 * iv, s + 4 * iv]"
    by (simp add: sampled_at_def u)
  have e: "Suc (Suc (Suc (Suc (Suc 0)))) = 5" by simp
  show "sampled_at s iv (Suc (Suc (Suc (Suc (Suc 0))))) = [s, s + iv, s + 2 * iv, s + 3 * iv, s + 4 * iv]"
    unfolding e by (rule a)
qed

lemma demo_request_validates:
  "validateExtractFramesOptions demo_host demo_world
     (with_defaults (demo_request\<lparr>opt_output_dir := od, opt_max_frames := Some 1\<rparr>)) = None"
  "validateExtractFramesOptions demo_host demo_world
     (with_defaults (demo_request\<lparr>opt_output_dir := od\<rparr>)) = None"
  "validateExtractFramesOptions demo_host demo_world
     (with_defaults (demo_request\<lparr>opt_start_time := None, opt_end_time := Some (- 3)\<rparr>)) = None"
  "validateExtractFramesOptions demo_host demo_world (with_defaults demo_request) = None"
  by (rule demo_validates;
      simp add: demo_request_def in_range_def check_start_time_def check_time_window_def)+

theorem C2_cache_hit_witness:
  "\<exists>r w'. extractFrames demo_host demo_world
              (demo_request\<lparr>opt_output_dir := Some ''/videos/frames''\<rparr>) = (Success r, w')
      \<and> filter is_decoder_run (new_events demo_world w') = []
      \<and> filter is_removal (new_events demo_world w') = []
      \<and> same_files demo_world w'
      \<and> frame_paths r = Some [''/videos/frames/frame_0001.jpg'', ''/videos/frames/frame_0002.jpg'',
                               ''/videos/frames/frame_0003.jpg'']
      \<and> map index (frames r) = [0, 1, 2]
      \<and> map timestamp_seconds (frames r) = [5, 7, 9]"
proof -
  let ?req = "demo_request\<lparr>opt_output_dir := Some ''/videos/frames''\<rparr>"
  let ?names = "[''frame_0002.jpg'', ''frame_0001.jpg'', ''notes.txt'', ''frame_0003.jpg'']"
  have sel: "opt_path ?req = ''clip''" "opt_output_dir ?req = Some ''/videos/frames''"
    "opt_start_time ?req = Some 5" "opt_interval ?req = Some 2"
    by (simp_all add: demo_request_def)
  obtain r w' where run: "extractFrames demo_host demo_world ?req = (Success r, w')"
    using demo_cached_run [OF sel(1) demo_request_validates(2) sel(2)] sel(3) by auto
  have hyp: "opt_output_dir ?req = Some ''/videos/frames'' \<and> ''/videos/frames'' \<noteq> []
      \<and> readdirSync demo_world ''/videos/frames'' = Inr ?names
      \<and> (\<exists>n \<in> set ?names. endsWith n ''.jpg'')
      \<and> extractFrames demo_host demo_world ?req = (Success r, w')"
    using run sel(2) by (simp add: demo_listing endsWith_def)
  from C2_cache_hit [where input = ?req and d = "''/videos/frames''" and w = demo_world
      and names = ?names and h = demo_host and res = "Success r" and w' = w'] hyp
  have c: "(\<forall>e \<in> set (new_events demo_world w'). \<not> is_decoder_run e \<and> \<not> is_removal e)
     \<and> same_files demo_world w'
     \<and> frame_paths r = Some (image_files demo_host ''/videos/frames'' ?names)
     \<and> map index (frames r) = [0..<length (image_files demo_host ''/videos/frames'' ?names)]
     \<and> map timestamp_seconds (frames r)
         = sampled_at (dflt 0 (opt_start_time ?req)) (dflt 2 (opt_interval ?req))
             (length (image_files demo_host ''/videos/frames'' ?names))"
    by blast
  then have "filter is_decoder_run (new_events demo_world w') = []"
    and "filter is_removal (new_events demo_world w') = []"
    by (simp_all add: filter_empty_conv)
  moreover from c have "same_files demo_world w'" by simp
  moreover from c have "frame_paths r = Some [''/videos/frames/frame_0001.jpg'',
      ''/videos/frames/frame_0002.jpg'', ''/videos/frames/frame_0003.jpg'']"
    by (simp add: demo_image_files)
  moreover from c have "map index (frames r) = [0, 1, 2]"
    by (simp add: demo_image_files upt_rec)
  moreover from c have "map timestamp_seconds (frames r) = [5, 7, 9]"
    by (simp add: demo_image_files sel sampled_at_3)
  ultimately show ?thesis using run
    by (intro exI [of _ r] exI [of _ w'] conjI)
qed

section \<open>Indices and timestamps of the frames\<close>

lemma fresh_frames:
  assumes run: "extractFrames h w input = (Success r, w')"
    and fresh: "\<not> truthy (opt_output_dir input)
         \<or> getExistingFrames h w (the (opt_output_dir input)) = []"
  shows "\<exists>w2 t wd names.
      (w2 = probed_world h w (the (resolveVideoPath h w (opt_path input)))
       \<or> ensureDir h (the (opt_output_dir input))
            (probed_world h w (the (resolveVideoPath h w (opt_path input)))) = Inr w2)
      \<and> ffmpegExtractFrames h w2 (the (resolveVideoPath h w (opt_path input)))
            (processor_options (with_defaults input)) = (Inr (frames r, t), wd)
      \<and> readdirSync wd t = Inr names
      \<and> length (frames r) = length (filter (\<lambda>n. endsWith n ''.jpg'') names)
      \<and> map (\<lambda>f. Inr (image f)) (frames r) = map (readFileBase64 wd) (image_files h t names)"
proof -
  let ?rp = "the (resolveVideoPath h w (opt_path input))"
  let ?po = "processor_options (with_defaults input)"
  from extractFrames_fresh_success [OF run fresh] obtain w2 meta where
    w2: "w2 = probed_world h w ?rp
         \<or> ensureDir h (the (opt_output_dir input)) (probed_world h w ?rp) = Inr w2"
    and ef: "extract_fresh h w2 ?rp (with_defaults input) meta (truthy (opt_output_dir input))
               = (Success r, w')"
    by blast
  from extract_fresh_frames [OF ef] obtain t wd where
    p: "ffmpegExtractFrames h w2 ?rp ?po = (Inr (frames r, t), wd)" by blast
  from ffmpegExtractFrames_frames [OF p] obtain names where
    ls: "readdirSync wd t = Inr names"
    and loop: "frames_loop wd (dflt 0 (po_startTime ?po)) (dflt 2 (po_interval ?po)) 0
                 (image_files h t names) = Inr (frames r)"
    by blast
  from frames_loop_length [OF loop]
  have len: "length (frames r) = length (filter (\<lambda>n. endsWith n ''.jpg'') names)"
    by (simp add: image_files_length)
  from frames_loop_timestamps(3) [OF loop]
  have img: "map (\<lambda>f. Inr (image f)) (frames r) = map (readFileBase64 wd) (image_files h t names)" .
  from w2 p ls len img show ?thesis by blast
qed

lemma reuse_frames:
  assumes run: "extractFrames h w input = (Success r, w')"
    and od: "opt_output_dir input = Some d" "d \<noteq> []"
    and ls: "readdirSync w d = Inr names"
    and jpg: "\<exists>n \<in> set names. endsWith n ''.jpg''"
  shows "length (frames r) = length (filter (\<lambda>n. endsWith n ''.jpg'') names)"
    and "map (\<lambda>f. Inr (image f)) (frames r) = map (readFileBase64 w) (image_files h d names)"
proof -
  note c = cache_hit_facts [OF od ls jpg]
  from cache_hit_success(1) [OF run c(1) c(3)] c(2)
  have loop: "frames_loop w (dflt 0 (opt_start_time input)) (dflt 2 (opt_interval input)) 0
      (image_files h d names) = Inr (frames r)" by simp
  from frames_loop_length [OF loop]
  show "length (frames r) = length (filter (\<lambda>n. endsWith n ''.jpg'') names)"
    by (simp add: image_files_length)
  from frames_loop_timestamps(3) [OF loop]
  show "map (\<lambda>f. Inr (image f)) (frames r) = map (readFileBase64 w) (image_files h d names)" .
qed

text \<open>
  C3, as the code has it. The frames of every successful extraction carry the indices
  0, 1, 2, ... and the timestamps \<open>start_time (or 0) + index * interval\<close> of the request
  (interval 2 when absent), which do not decrease with the index. There is one frame per
  image file read, in order: the \<^verbatim>\<open>.jpg\<close> entries of a reused output directory, however
  many the request allows, or else those that the decoder left in the temporary directory
  of the processor. For start time 5 and interval 2 the timestamps are 5, 7, 9 when three
  files are read, and 5, 7, 9, 11, 13 when five are.
\<close>

theorem C3_frame_timestamps:
  "extractFrames h w input = (Success r, w') \<longrightarrow>
     map index (frames r) = [0..<length (frames r)]
     \<and> (\<forall>i < length (frames r).
           timestamp_seconds (frames r ! i)
             = dflt 0 (opt_start_time input) + real i * dflt 2 (opt_interval input))
     \<and> sorted (map timestamp_seconds (frames r))
     \<and> (opt_start_time input = Some 5 \<and> opt_interval input = Some 2 \<longrightarrow>
          (length (frames r) = 3 \<longrightarrow> map timestamp_seconds (frames r) = [5, 7, 9])
          \<and> (length (frames r) = 5 \<longrightarrow> map timestamp_seconds (frames r) = [5, 7, 9, 11, 13]))
     \<and> (opt_output_dir input = Some d \<and> d \<noteq> [] \<and> readdirSync w d = Inr names
         \<and> (\<exists>n \<in> set names. endsWith n ''.jpg'') \<longrightarrow>
          length (frames r) = length (filter (\<lambda>n. endsWith n ''.jpg'') names)
          \<and> map (\<lambda>f. Inr (image f)) (frames r)
              = map (readFileBase64 w) (image_files h d names))
     \<and> (\<not> truthy (opt_output_dir input)
         \<or> getExistingFrames h w (the (opt_output_dir input)) = [] \<longrightarrow>
          (\<exists>w2 t wd left.
             (w2 = probed_world h w (the (resolveVideoPath h w (opt_path input)))
              \<or> ensureDir h (the (opt_output_dir input))
                   (probed_world h w (the (resolveVideoPath h w (opt_path input)))) = Inr w2)
             \<and> ffmpegExtractFrames h w2 (the (resolveVideoPath h w (opt_path input)))
                   (processor_options (with_defaults input)) = (Inr (frames r, t), wd)
             \<and> readdirSync wd t = Inr left
             \<and> length (frames r) = length (filter (\<lambda>n. endsWith n ''.jpg'') left)
             \<and> map (\<lambda>f. Inr (image f)) (frames r)
                 = map (readFileBase64 wd) (image_files h t left)))"
proof
  let ?s = "dflt 0 (opt_start_time input)" and ?iv = "dflt 2 (opt_interval input)"
  assume run: "extractFrames h w input = (Success r, w')"
  from extractFrames_success(2) [OF run] obtain wx fs where
    loop: "frames_loop wx ?s ?iv 0 fs = Inr (frames r)" by blast
  from loop have len: "length (frames r) = length fs" by (rule frames_loop_length)
  from frames_loop_timestamps [OF loop] len
  have idx: "map index (frames r) = [0..<length (frames r)]"
    and ts: "map timestamp_seconds (frames r) = sampled_at ?s ?iv (length (frames r))"
    by simp_all
  have nth: "\<forall>i < length (frames r). timestamp_seconds (frames r ! i) = ?s + real i * ?iv"
    using frames_loop_nth [OF loop] len by simp
  from extractFrames_success(1) [OF run] have "0.1 \<le> ?iv" by (rule validate_None_interval)
  then have "0 \<le> ?iv" by simp
  then have mono: "sorted (map timestamp_seconds (frames r))"
    unfolding ts by (rule sampled_at_sorted)
  have inst: "opt_start_time input = Some 5 \<and> opt_interval input = Some 2 \<longrightarrow>
          (length (frames r) = 3 \<longrightarrow> map timestamp_seconds (frames r) = [5, 7, 9])
          \<and> (length (frames r) = 5 \<longrightarrow> map timestamp_seconds (frames r) = [5, 7, 9, 11, 13])"
    unfolding ts by (auto simp: sampled_at_3 sampled_at_5)
  have reuse: "opt_output_dir input = Some d \<and> d \<noteq> [] \<and> readdirSync w d = Inr names
         \<and> (\<exists>n \<in> set names. endsWith n ''.jpg'') \<longrightarrow>
          length (frames r) = length (filter (\<lambda>n. endsWith n ''.jpg'') names)
          \<and> map (\<lambda>f. Inr (image f)) (frames r)
              = map (readFileBase64 w) (image_files h d names)"
    using reuse_frames [OF run] by blast
  have fresh: "\<not> truthy (opt_output_dir input)
         \<or> getExistingFrames h w (the (opt_output_dir input)) = [] \<longrightarrow>
          (\<exists>w2 t wd left.
             (w2 = probed_world h w (the (resolveVideoPath h w (opt_path input)))
              \<or> ensureDir h (the (opt_output_dir input))
                   (probed_world h w (the (resolveVideoPath h w (opt_path input)))) = Inr w2)
             \<and> ffmpegExtractFrames h w2 (the (resolveVideoPath h w (opt_path input)))
                   (processor_options (with_defaults input)) = (Inr (frames r, t), wd)
             \<and> readdirSync wd t = Inr left
             \<and> length (frames r) = length (filter (\<lambda>n. endsWith n ''.jpg'') left)
             \<and> map (\<lambda>f. Inr (image f)) (frames r)
                 = map (readFileBase64 wd) (image_files h t left))"
    using fresh_frames [OF run] by (intro impI)
  from idx nth mono inst reuse fresh
  show "map index (frames r) = [0..<length (frames r)]
     \<and> (\<forall>i < length (frames r). timestamp_seconds (frames r ! i) = ?s + real i * ?iv)
     \<and> sorted (map timestamp_seconds (frames r))
     \<and> (opt_start_time input = Some 5 \<and> opt_interval input = Some 2 \<longrightarrow>
          (length (frames r) = 3 \<longrightarrow> map timestamp_seconds (frames r) = [5, 7, 9])
          \<and> (length (frames r) = 5 \<longrightarrow> map timestamp_seconds (frames r) = [5, 7, 9, 11, 13]))
     \<and> (opt_output_dir input = Some d \<and> d \<noteq> [] \<and> readdirSync w d = Inr names
         \<and> (\<exists>n \<in> set names. endsWith n ''.jpg'') \<longrightarrow>
          length (frames r) = length (filter (\<lambda>n. endsWith n ''.jpg'') names)
          \<and> map (\<lambda>f. Inr (image f)) (frames r)
              = map (readFileBase64 w) (image_files h d names))
     \<and> (\<not> truthy (opt_output_dir input)
         \<or> getExistingFrames h w (the (opt_output_dir input)) = [] \<longrightarrow>
          (\<exists>w2 t wd left.
             (w2 = probed_world h w (the (resolveVideoPath h w (opt_path input)))
              \<or> ensureDir h (the (opt_output_dir input))
                   (probed_world h w (the (resolveVideoPath h w (opt_path input)))) = Inr w2)
             \<and> ffmpegExtractFrames h w2 (the (resolveVideoPath h w (opt_path input)))
                   (processor_options (with_defaults input)) = (Inr (frames r, t), wd)
             \<and> readdirSync wd t = Inr left
             \<and> length (frames r) = length (filter (\<lambda>n. endsWith n ''.jpg'') left)
             \<and> map (\<lambda>f. Inr (image f)) (frames r)
                 = map (readFileBase64 wd) (image_files h t left)))"
    by (intro conjI)
qed

theorem C3_frame_timestamps_witness:
  "(\<exists>r w'. extractFrames demo_host demo_world
               (demo_request\<lparr>opt_output_dir := Some ''/videos/shots''\<rparr>) = (Success r, w')
       \<and> opt_start_time (demo_request\<lparr>opt_output_dir := Some ''/videos/shots''\<rparr>) = Some 5
       \<and> opt_interval (demo_request\<lparr>opt_output_dir := Some ''/videos/shots''\<rparr>) = Some 2
       \<and> opt_max_frames (demo_request\<lparr>opt_output_dir := Some ''/videos/shots''\<rparr>) = Some 3
       \<and> readdirSync demo_world ''/videos/shots''
           = Inr [''frame_0001.jpg'', ''frame_0002.jpg'', ''frame_0003.jpg'',
                  ''frame_0004.jpg'', ''frame_0005.jpg'']
       \<and> length (frames r) = 5
       \<and> map index (frames r) = [0, 1, 2, 3, 4]
       \<and> map timestamp_seconds (frames r) = [5, 7, 9, 11, 13]
       \<and> sorted (map timestamp_seconds (frames r))
       \<and> map image (frames r)
           = [''/9j/4AAQ'', ''/9j/4AAQ'', ''/9j/4AAQ'', ''/9j/4AAQ'', ''/9j/4AAQ''])
   \<and> (\<exists>r w'. extractFrames demo_host demo_world demo_request = (Success r, w')
       \<and> opt_start_time demo_request = Some 5 \<and> opt_interval demo_request = Some 2
       \<and> opt_max_frames demo_request = Some 3 \<and> opt_output_dir demo_request = None
       \<and> length (frames r) = 3
       \<and> map index (frames r) = [0, 1, 2]
       \<and> map timestamp_seconds (frames r) = [5, 7, 9]
       \<and> sorted (map timestamp_seconds (frames r))
       \<and> (\<exists>w2 t wd left.
             ffmpegExtractFrames demo_host w2 ''/videos/clip.mp4''
                 (processor_options (with_defaults demo_request)) = (Inr (frames r, t), wd)
             \<and> readdirSync wd t = Inr left
             \<and> length (filter (\<lambda>n. endsWith n ''.jpg'') left) = 3))"
proof (rule conjI)
  let ?req = "demo_request\<lparr>opt_output_dir := Some ''/videos/shots''\<rparr>"
  let ?names = "[''frame_0001.jpg'', ''frame_0002.jpg'', ''frame_0003.jpg'', ''frame_0004.jpg'',
                 ''frame_0005.jpg'']"
  have sel: "opt_path ?req = ''clip''" "opt_output_dir ?req = Some ''/videos/shots''"
    "opt_start_time ?req = Some 5" "opt_interval ?req = Some 2" "opt_max_frames ?req = Some 3"
    by (simp_all add: demo_request_def)
  obtain r w' where run: "extractFrames demo_host demo_world ?req = (Success r, w')"
    using demo_shots_run [OF sel(1) demo_request_validates(2) sel(2)] sel(3) by auto
  have hyp: "opt_output_dir ?req = Some ''/videos/shots'' \<and> ''/videos/shots'' \<noteq> []
      \<and> readdirSync demo_world ''/videos/shots'' = Inr ?names
      \<and> (\<exists>n \<in> set ?names. endsWith n ''.jpg'')"
    using sel(2) by (simp add: demo_shots_listing endsWith_def)
  from C3_frame_timestamps [where h = demo_host and w = demo_world and input = ?req
      and r = r and w' = w' and d = "''/videos/shots''" and names = ?names] run hyp sel(3,4)
  have idx: "map index (frames r) = [0..<length (frames r)]"
    and srt: "sorted (map timestamp_seconds (frames r))"
    and five: "length (frames r) = 5 \<longrightarrow> map timestamp_seconds (frames r) = [5, 7, 9, 11, 13]"
    and len: "length (frames r) = length (filter (\<lambda>n. endsWith n ''.jpg'') ?names)"
    and img: "map (\<lambda>f. Inr (image f)) (frames r)
        = map (readFileBase64 demo_world) (image_files demo_host ''/videos/shots'' ?names)"
    by blast+
  from len have len5: "length (frames r) = 5" by (simp add: endsWith_def)
  from five len5 have ts: "map timestamp_seconds (frames r) = [5, 7, 9, 11, 13]" by blast
  from idx len5 have idx5: "map index (frames r) = [0, 1, 2, 3, 4]" by (simp add: upt_rec)
  from img have "map (\<lambda>f. (Inr (image f) :: string + string)) (frames r)
      = map Inr [''/9j/4AAQ'', ''/9j/4AAQ'', ''/9j/4AAQ'', ''/9j/4AAQ'', ''/9j/4AAQ'']"
    by (simp add: demo_shots_files demo_shots_readable)
  then have "map Inr (map image (frames r))
      = map (Inr :: string \<Rightarrow> string + string)
          [''/9j/4AAQ'', ''/9j/4AAQ'', ''/9j/4AAQ'', ''/9j/4AAQ'', ''/9j/4AAQ'']"
    by (simp only: map_map comp_def)
  then have im: "map image (frames r)
      = [''/9j/4AAQ'', ''/9j/4AAQ'', ''/9j/4AAQ'', ''/9j/4AAQ'', ''/9j/4AAQ'']"
    by (simp only: inj_map_eq_map [OF inj_Inr])
  from run sel(3,4,5) demo_shots_listing len5 idx5 ts srt im
  show "\<exists>r w'. extractFrames demo_host demo_world ?req = (Success r, w')
       \<and> opt_start_time ?req = Some 5 \<and> opt_interval ?req = Some 2
       \<and> opt_max_frames ?req = Some 3
       \<and> readdirSync demo_world ''/videos/shots'' = Inr ?names
       \<and> length (frames r) = 5
       \<and> map index (frames r) = [0, 1, 2, 3, 4]
       \<and> map timestamp_seconds (frames r) = [5, 7, 9, 11, 13]
       \<and> sorted (map timestamp_seconds (frames r))
       \<and> map image (frames r)
           = [''/9j/4AAQ'', ''/9j/4AAQ'', ''/9j/4AAQ'', ''/9j/4AAQ'', ''/9j/4AAQ'']"
    by (intro exI [of _ r] exI [of _ w'] conjI)
next
  have sel: "opt_path demo_request = ''clip''" "opt_output_dir demo_request = None"
    "opt_start_time demo_request = Some 5" "opt_interval demo_request = Some 2"
    "opt_max_frames demo_request = Some 3"
    by (simp_all add: demo_request_def)
  obtain r w' where run: "extractFrames demo_host demo_world demo_request = (Success r, w')"
    and len: "length (frames r) = 3"
    using demo_fresh_run [OF sel(1) demo_request_validates(4) sel(2)] sel(3) by auto
  have fresh: "\<not> truthy (opt_output_dir demo_request)
      \<or> getExistingFrames demo_host demo_world (the (opt_output_dir demo_request)) = []"
    by (simp add: sel)
  have rp: "the (resolveVideoPath demo_host demo_world (opt_path demo_request))
      = ''/videos/clip.mp4''"
    by (simp add: sel demo_resolve_clip)
  from C3_frame_timestamps [where h = demo_host and w = demo_world and input = demo_request
      and r = r and w' = w'] run sel(3,4) fresh
  have idx: "map index (frames r) = [0..<length (frames r)]"
    and srt: "sorted (map timestamp_seconds (frames r))"
    and three: "length (frames r) = 3 \<longrightarrow> map timestamp_seconds (frames r) = [5, 7, 9]"
    and ex: "\<exists>w2 t wd left.
             (w2 = probed_world demo_host demo_world
                     (the (resolveVideoPath demo_host demo_world (opt_path demo_request)))
              \<or> ensureDir demo_host (the (opt_output_dir demo_request))
                   (probed_world demo_host demo_world
                     (the (resolveVideoPath demo_host demo_world (opt_path demo_request))))
                  = Inr w2)
             \<and> ffmpegExtractFrames demo_host w2
                   (the (resolveVideoPath demo_host demo_world (opt_path demo_request)))
                   (processor_options (with_defaults demo_request)) = (Inr (frames r, t), wd)
             \<and> readdirSync wd t = Inr left
             \<and> length (frames r) = length (filter (\<lambda>n. endsWith n ''.jpg'') left)
             \<and> map (\<lambda>f. Inr (image f)) (frames r)
                 = map (readFileBase64 wd) (image_files demo_host t left)"
    by blast+
  from ex len have ex': "\<exists>w2 t wd left.
             ffmpegExtractFrames demo_host w2 ''/videos/clip.mp4''
                 (processor_options (with_defaults demo_request)) = (Inr (frames r, t), wd)
             \<and> readdirSync wd t = Inr left
             \<and> length (filter (\<lambda>n. endsWith n ''.jpg'') left) = 3"
    unfolding rp by metis
  from three len have ts: "map timestamp_seconds (frames r) = [5, 7, 9]" by blast
  from idx len have idx3: "map index (frames r) = [0, 1, 2]" by (simp add: upt_rec)
  let ?P = "\<lambda>r w'. extractFrames demo_host demo_world demo_request = (Success r, w')
       \<and> opt_start_time demo_request = Some 5 \<and> opt_interval demo_request = Some 2
       \<and> opt_max_frames demo_request = Some 3 \<and> opt_output_dir demo_request = None
       \<and> length (frames r) = 3
       \<and> map index (frames r) = [0, 1, 2]
       \<and> map timestamp_seconds (frames r) = [5, 7, 9]
       \<and> sorted (map timestamp_seconds (frames r))
       \<and> (\<exists>w2 t wd left.
             ffmpegExtractFrames demo_host w2 ''/videos/clip.mp4''
                 (processor_options (with_defaults demo_request)) = (Inr (frames r, t), wd)
             \<and> readdirSync wd t = Inr left
             \<and> length (filter (\<lambda>n. endsWith n ''.jpg'') left) = 3)"
  from run sel(3,4,5,2) len idx3 ts srt ex' have "?P r w'"
    by (intro conjI)
  then show "\<exists>r w'. ?P r w'"
    by (intro exI [of _ r] exI [of _ w'])
qed

text \<open>
  A request with start time 5, interval 2 and a cap of 3 frames, on the output directory
  \<^verbatim>\<open>/videos/shots\<close> that holds five frames: the call succeeds with the five timestamps
  5, 7, 9, 11, 13, not with 5, 7, 9.
\<close>

theorem C3_cap_ignored_counterexample:
  "opt_start_time (demo_request\<lparr>opt_output_dir := Some ''/videos/shots''\<rparr>) = Some 5
   \<and> opt_interval (demo_request\<lparr>opt_output_dir := Some ''/videos/shots''\<rparr>) = Some 2
   \<and> opt_max_frames (demo_request\<lparr>opt_output_dir := Some ''/videos/shots''\<rparr>) = Some 3
   \<and> timestamps_of (fst (extractFrames demo_host demo_world
          (demo_request\<lparr>opt_output_dir := Some ''/videos/shots''\<rparr>)))
       = Some [5, 7, 9, 11, 13]"
proof -
  let ?req = "demo_request\<lparr>opt_output_dir := Some ''/videos/shots''\<rparr>"
  let ?names = "[''frame_0001.jpg'', ''frame_0002.jpg'', ''frame_0003.jpg'', ''frame_0004.jpg'',
                 ''frame_0005.jpg'']"
  have sel: "opt_path ?req = ''clip''" "opt_output_dir ?req = Some ''/videos/shots''"
    "opt_start_time ?req = Some 5" "opt_interval ?req = Some 2" "opt_max_frames ?req = Some 3"
    by (simp_all add: demo_request_def)
  obtain r w' where run: "extractFrames demo_host demo_world ?req = (Success r, w')"
    using demo_shots_run [OF sel(1) demo_request_validates(2) sel(2)] sel(3) by auto
  have jpg: "\<exists>n \<in> set ?names. endsWith n ''.jpg''"
    by (simp add: endsWith_def)
  have ne: "''/videos/shots'' \<noteq> []" by simp
  note c = cache_hit_facts [OF sel(2) ne demo_shots_listing jpg]
  from cache_hit_success(1) [OF run c(1) c(3)]
  have loop: "frames_loop demo_world 5 2 0 (image_files demo_host ''/videos/shots'' ?names)
      = Inr (frames r)"
    by (simp only: sel option.sel dflt_simps getExistingFrames_listing [OF demo_shots_listing])
  from frames_loop_timestamps(1) [OF loop]
  have "map timestamp_seconds (frames r) = [5, 7, 9, 11, 13]"
    by (simp add: demo_shots_files sampled_at_5)
  then have "timestamps_of (fst (extractFrames demo_host demo_world ?req))
      = Some [5, 7, 9, 11, 13]"
    by (simp add: run timestamps_of_def)
  with sel(3,4,5) show ?thesis by (intro conjI)
qed

section \<open>An end time without a start time\<close>





section \<open>The frame cap\<close>

text \<open>
  C10. On a reuse of the output directory (the directory is given and lists at least one
  \<^verbatim>\<open>.jpg\<close> entry), a successful call returns one frame for each \<^verbatim>\<open>.jpg\<close> entry of
  the directory, and reports that count as the total, whatever the frame cap of the request.
  The cap reaches the decoder only: every run of the decoder is passed the cap (30 when
  absent) as \<^verbatim>\<open>-frames:v\<close>.
\<close>

theorem C10_cap_only_on_fresh_runs:
  "(opt_output_dir input = Some d \<and> d \<noteq> [] \<and> readdirSync w d = Inr names
      \<and> (\<exists>n \<in> set names. endsWith n ''.jpg'')
      \<and> extractFrames h w input = (Success r, w')
     \<longrightarrow> length (frames r) = length (filter (\<lambda>n. endsWith n ''.jpg'') names)
         \<and> total_frames_extracted (info r) = length (filter (\<lambda>n. endsWith n ''.jpg'') names))
   \<and> (extractFrames h w input = (res, w')
     \<longrightarrow> (\<forall>a. RunFfmpeg a \<in> set (new_events w w') \<longrightarrow>
            passes a ''-frames:v'' [Num (dflt 30 (opt_max_frames input))]))"
proof (rule conjI)
  show "opt_output_dir input = Some d \<and> d \<noteq> [] \<and> readdirSync w d = Inr names
      \<and> (\<exists>n \<in> set names. endsWith n ''.jpg'')
      \<and> extractFrames h w input = (Success r, w')
     \<longrightarrow> length (frames r) = length (filter (\<lambda>n. endsWith n ''.jpg'') names)
         \<and> total_frames_extracted (info r) = length (filter (\<lambda>n. endsWith n ''.jpg'') names)"
  proof
    assume a: "opt_output_dir input = Some d \<and> d \<noteq> [] \<and> readdirSync w d = Inr names
        \<and> (\<exists>n \<in> set names. endsWith n ''.jpg'')
        \<and> extractFrames h w input = (Success r, w')"
    then have od: "opt_output_dir input = Some d" "d \<noteq> []"
      and ls: "readdirSync w d = Inr names"
      and jpg: "\<exists>n \<in> set names. endsWith n ''.jpg''"
      and run: "extractFrames h w input = (Success r, w')"
      by simp_all
    note hit = cache_hit_facts [OF od ls jpg]
    from cache_hit_success(1) [OF run hit(1) hit(3)]
    have "length (frames r) = length (image_files h d names)"
      by (simp add: hit(2) frames_loop_length)
    then have len: "length (frames r) = length (filter (\<lambda>n. endsWith n ''.jpg'') names)"
      by (simp add: image_files_length)
    with cache_hit_success(4) [OF run hit(1) hit(3)]
    show "length (frames r) = length (filter (\<lambda>n. endsWith n ''.jpg'') names)
         \<and> total_frames_extracted (info r) = length (filter (\<lambda>n. endsWith n ''.jpg'') names)"
      by simp
  qed
next
  show "extractFrames h w input = (res, w')
     \<longrightarrow> (\<forall>a. RunFfmpeg a \<in> set (new_events w w') \<longrightarrow>
            passes a ''-frames:v'' [Num (dflt 30 (opt_max_frames input))])"
  proof (rule impI, rule allI, rule impI)
    fix a
    assume run: "extractFrames h w input = (res, w')"
      and ev: "RunFfmpeg a \<in> set (new_events w w')"
    let ?po = "processor_options (with_defaults input)"
    from extractFrames_events [OF run] obtain evs where
      t: "trace w' = trace w @ evs"
      and d: "\<forall>e \<in> set evs. is_decoder_run e \<longrightarrow> (\<exists>rp t. e = decoder_event h rp ?po t)"
      by blast
    from t have "new_events w w' = evs" by (rule new_events_append)
    with ev d obtain rp t where "RunFfmpeg a = decoder_event h rp ?po t" by force
    then have "a = [Txt ''-y''] # extractFrames_args (normalizePath h rp)
        (path_join h t ''frame_%04d.jpg'') ?po"
      by (simp add: decoder_event_def)
    with frame_cap_passes [of "normalizePath h rp" "path_join h t ''frame_%04d.jpg''" ?po]
    show "passes a ''-frames:v'' [Num (dflt 30 (opt_max_frames input))]"
      by simp
  qed
qed

theorem C10_cap_only_on_fresh_runs_witness:
  "opt_max_frames (demo_request\<lparr>opt_output_dir := Some ''/videos/frames'',
                                opt_max_frames := Some 1\<rparr>) = Some 1
   \<and> (\<exists>r w'. extractFrames demo_host demo_world
                (demo_request\<lparr>opt_output_dir := Some ''/videos/frames'',
                              opt_max_frames := Some 1\<rparr>) = (Success r, w')
          \<and> length (frames r) = 3 \<and> total_frames_extracted (info r) = 3)
   \<and> (\<exists>r w' a. extractFrames demo_host demo_world demo_request = (Success r, w')
          \<and> RunFfmpeg a \<in> set (new_events demo_world w')
          \<and> passes a ''-frames:v'' [Num 3])"
proof -
  let ?req = "demo_request\<lparr>opt_output_dir := Some ''/videos/frames'', opt_max_frames := Some 1\<rparr>"
  let ?names = "[''frame_0002.jpg'', ''frame_0001.jpg'', ''notes.txt'', ''frame_0003.jpg'']"
  have sel: "opt_path ?req = ''clip''" "opt_output_dir ?req = Some ''/videos/frames''"
    "opt_start_time ?req = Some 5" "opt_max_frames ?req = Some 1"
    by (simp_all add: demo_request_def)
  obtain r w' where run: "extractFrames demo_host demo_world ?req = (Success r, w')"
    using demo_cached_run [OF sel(1) demo_request_validates(1) sel(2)] sel(3) by auto
  have hyp: "opt_output_dir ?req = Some ''/videos/frames'' \<and> ''/videos/frames'' \<noteq> []
      \<and> readdirSync demo_world ''/videos/frames'' = Inr ?names
      \<and> (\<exists>n \<in> set ?names. endsWith n ''.jpg'')
      \<and> extractFrames demo_host demo_world ?req = (Success r, w')"
    using run sel(2) by (simp add: demo_listing endsWith_def)
  from C10_cap_only_on_fresh_runs [where input = ?req and d = "''/videos/frames''"
      and w = demo_world and names = ?names and h = demo_host and r = r and w' = w'] hyp
  have "length (frames r) = length (filter (\<lambda>n. endsWith n ''.jpg'') ?names)
      \<and> total_frames_extracted (info r) = length (filter (\<lambda>n. endsWith n ''.jpg'') ?names)"
    by blast
  then have three: "length (frames r) = 3" "total_frames_extracted (info r) = 3"
    by (simp_all add: endsWith_def)
  have sel': "opt_path demo_request = ''clip''" "opt_output_dir demo_request = None"
    "opt_start_time demo_request = Some 5" "opt_max_frames demo_request = Some 3"
    by (simp_all add: demo_request_def)
  obtain r2 w2 where run2: "extractFrames demo_host demo_world demo_request = (Success r2, w2)"
    and evs: "new_events demo_world w2
          = [probe_event demo_host ''/videos/clip.mp4'',
             MakeTempDir ''/tmp/mcp-video-a1'',
             decoder_event demo_host ''/videos/clip.mp4''
               (processor_options (with_defaults demo_request)) ''/tmp/mcp-video-a1'',
             RemoveDir ''/tmp/mcp-video-a1'']"
    using demo_fresh_run [OF sel'(1) demo_request_validates(4) sel'(2)] sel'(3) by auto
  obtain a where a: "RunFfmpeg a = decoder_event demo_host ''/videos/clip.mp4''
      (processor_options (with_defaults demo_request)) ''/tmp/mcp-video-a1''"
    by (simp add: decoder_event_def)
  with evs have mem: "RunFfmpeg a \<in> set (new_events demo_world w2)" by simp
  from C10_cap_only_on_fresh_runs [where input = demo_request and w = demo_world
      and h = demo_host and res = "Success r2" and w' = w2] run2 mem
  have "passes a ''-frames:v'' [Num (dflt 30 (opt_max_frames demo_request))]" by blast
  then have p: "passes a ''-frames:v'' [Num 3]" by (simp add: sel'(4))
  have ex1: "\<exists>r w'. extractFrames demo_host demo_world ?req = (Success r, w')
          \<and> length (frames r) = 3 \<and> total_frames_extracted (info r) = 3"
    using run three by blast
  have ex2: "\<exists>r w' a. extractFrames demo_host demo_world demo_request = (Success r, w')
          \<and> RunFfmpeg a \<in> set (new_events demo_world w')
          \<and> passes a ''-frames:v'' [Num 3]"
    using run2 mem p by blast
  from sel(4) ex1 ex2 show ?thesis by (intro conjI)
qed

end
